theory Spec2Isabelle
  imports Complex_Main "HOL-Library.Word"
begin

section \<open>The mesh exporter \<^verbatim>\<open>meshes/export-meshes.py\<close>\<close>

text \<open>
  The script walks the mesh objects of a Blender scene, appends one fixed-size record per
  triangle corner to the byte string \<^verbatim>\<open>data\<close>, the UTF-8 names to \<^verbatim>\<open>strings\<close> and one
  16-byte record per mesh to \<^verbatim>\<open>index\<close>, and finally writes the three byte strings as
  tagged chunks to the output file.

  What the model takes from Blender: the list \<^verbatim>\<open>to_write\<close> of names (lines 32 to 35), each
  paired with the mesh that \<^verbatim>\<open>bpy.data.objects[name].data\<close> is at line 69, that is after
  the copy, \<^verbatim>\<open>quads_convert_to_tris\<close> and \<^verbatim>\<open>calc_normals_split\<close> of lines 49 to 70. Those
  calls are Blender's, not the script's; exceptions they may raise are outside the model.
\<close>

subsection \<open>Values\<close>

type_synonym byte = "8 word"

text \<open>
  A single-precision float is its IEEE-754 bit pattern. Blender stores coordinates,
  normals and texture coordinates in single precision, so \<^verbatim>\<open>struct.pack('f', x)\<close> writes
  the four bytes of that pattern.
\<close>

type_synonym f32 = "32 word"

type_synonym vec2 = "f32 \<times> f32"
type_synonym vec3 = "f32 \<times> f32 \<times> f32"

text \<open>A Python \<^verbatim>\<open>str\<close> is its list of code points.\<close>

type_synonym codepoint = nat
type_synonym pystr = "codepoint list"

text \<open>
  A colour of the active layer: the channels \<^verbatim>\<open>col.r\<close>, \<^verbatim>\<open>col.g\<close>, \<^verbatim>\<open>col.b\<close>. A
  \<^verbatim>\<open>mathutils.Color\<close> holds single-precision values; read as Python floats their
  product with 255 has at most 32 significant bits and is exact in double precision, so
  a channel is modelled as the rational number it denotes.
\<close>

record color =
  col_r :: rat
  col_g :: rat
  col_b :: rat

record loop =
  loop_vertex_index :: nat
  loop_normal :: vec3

record vertex =
  vertex_co :: vec3

record polygon =
  poly_loop_indices :: "nat list"
  poly_vertices :: "nat list"

text \<open>
  \<open>mesh_vertex_colors_active\<close> is \<^verbatim>\<open>mesh.vertex_colors.active\<close>: \<open>None\<close> as in Python, or
  the layer's \<^verbatim>\<open>data\<close>. \<open>mesh_uv_layers\<close> is \<^verbatim>\<open>obj.data.uv_layers\<close> (each layer as its
  \<^verbatim>\<open>data\<close>), \<open>mesh_uv_layers_active\<close> is \<^verbatim>\<open>obj.data.uv_layers.active\<close>.
\<close>

record mesh =
  mesh_polygons :: "polygon list"
  mesh_loops :: "loop list"
  mesh_vertices :: "vertex list"
  mesh_vertex_colors_active :: "color list option"
  mesh_uv_layers :: "vec2 list list"
  mesh_uv_layers_active :: "vec2 list option"

datatype error =
  AssertionError | IndexError | AttributeError | StructError | UnicodeEncodeError

subsection \<open>Exceptions\<close>

text \<open>
  A computation that may raise returns \<open>Inl\<close> of the exception or \<open>Inr\<close> of its value;
  \<open>and_then m f\<close> runs \<open>f\<close> on the value of \<open>m\<close> unless \<open>m\<close> raised.
\<close>

definition and_then :: "error + 'a \<Rightarrow> ('a \<Rightarrow> error + 'b) \<Rightarrow> error + 'b" where
  "and_then m f = (case m of Inl e \<Rightarrow> Inl e | Inr x \<Rightarrow> f x)"

subsection \<open>\<^verbatim>\<open>struct.pack\<close>, indexing, \<^verbatim>\<open>int\<close> and \<^verbatim>\<open>bytes(name, "utf8")\<close>\<close>

text \<open>Four bytes, least significant first (the native order of the machines the script runs on).\<close>

definition le32 :: "nat \<Rightarrow> byte list" where
  "le32 n = [of_nat n, of_nat (n div 256), of_nat (n div 65536), of_nat (n div 16777216)]"

text \<open>\<^verbatim>\<open>struct.pack('I', n)\<close> raises \<^verbatim>\<open>struct.error\<close> when \<open>n\<close> does not fit 32 bits.\<close>

definition pack_I :: "nat \<Rightarrow> error + byte list" where
  "pack_I n = (if n < 2 ^ 32 then Inr (le32 n) else Inl StructError)"

definition pack_f :: "f32 \<Rightarrow> byte list" where
  "pack_f x = le32 (unat x)"

text \<open>\<^verbatim>\<open>struct.pack('B', v)\<close> raises \<^verbatim>\<open>struct.error\<close> outside 0..255.\<close>

definition pack_B :: "int \<Rightarrow> error + byte" where
  "pack_B v = (if 0 \<le> v \<and> v \<le> 255 then Inr (of_int v) else Inl StructError)"

definition pack_BBBB :: "int \<Rightarrow> int \<Rightarrow> int \<Rightarrow> int \<Rightarrow> error + byte list" where
  "pack_BBBB a b c d =
     and_then (pack_B a) (\<lambda>a'.
     and_then (pack_B b) (\<lambda>b'.
     and_then (pack_B c) (\<lambda>c'.
     and_then (pack_B d) (\<lambda>d'. Inr [a', b', c', d']))))"

text \<open>Python's \<^verbatim>\<open>int(x)\<close> on a float drops the fractional part (rounds towards zero).\<close>

definition py_int :: "rat \<Rightarrow> int" where
  "py_int x = (if 0 \<le> x then \<lfloor>x\<rfloor> else \<lceil>x\<rceil>)"

text \<open>\<^verbatim>\<open>xs[i]\<close> for an index that Blender hands out (never negative).\<close>

definition getitem :: "'a list \<Rightarrow> nat \<Rightarrow> error + 'a" where
  "getitem xs i = (if i < length xs then Inr (xs ! i) else Inl IndexError)"

text \<open>
  The UTF-8 encoder behind \<^verbatim>\<open>bytes(name, "utf8")\<close>: one to four bytes per code point,
  \<^verbatim>\<open>UnicodeEncodeError\<close> on a surrogate. A Python \<^verbatim>\<open>str\<close> holds no value above
  \<^verbatim>\<open>0x10FFFF\<close>; the model refuses one.
\<close>

definition utf8_char :: "codepoint \<Rightarrow> error + byte list" where
  "utf8_char c =
     (if c < 0x80 then Inr [of_nat c]
      else if c < 0x800 then Inr [of_nat (0xC0 + c div 64), of_nat (0x80 + c mod 64)]
      else if c < 0x10000 then
        (if 0xD800 \<le> c \<and> c \<le> 0xDFFF then Inl UnicodeEncodeError
         else Inr [of_nat (0xE0 + c div 4096), of_nat (0x80 + c div 64 mod 64),
                   of_nat (0x80 + c mod 64)])
      else if c < 0x110000 then
        Inr [of_nat (0xF0 + c div 262144), of_nat (0x80 + c div 4096 mod 64),
             of_nat (0x80 + c div 64 mod 64), of_nat (0x80 + c mod 64)]
      else Inl UnicodeEncodeError)"

fun utf8 :: "pystr \<Rightarrow> error + byte list" where
  "utf8 [] = Inr []"
| "utf8 (c # cs) =
     and_then (utf8_char c) (\<lambda>bs.
     and_then (utf8 cs) (\<lambda>rest. Inr (bs @ rest)))"

subsection \<open>The export loop (lines 37 to 113)\<close>

text \<open>What the script prints: lines 48, 85 and 133.\<close>

datatype message =
  Writing pystr
  | Warning_no_uv pystr
  | Wrote nat nat nat nat

record state =
  data :: "byte list"
  strings :: "byte list"
  index :: "byte list"
  vertex_count :: nat
  stdout :: "message list"

definition init :: state where
  "init = \<lparr>data = [], strings = [], index = [], vertex_count = 0, stdout = []\<rparr>"

text \<open>Lines 96 to 99: the three components of a position or a normal, in order.\<close>

definition pack_vec3 :: "vec3 \<Rightarrow> byte list" where
  "pack_vec3 v = (case v of (x, y, z) \<Rightarrow> pack_f x @ pack_f y @ pack_f z)"

text \<open>\<^verbatim>\<open>layers.active.data\<close>: \<^verbatim>\<open>AttributeError\<close> when \<^verbatim>\<open>active\<close> is \<^verbatim>\<open>None\<close>.\<close>

definition active_data :: "'a option \<Rightarrow> error + 'a" where
  "active_data active = (case active of None \<Rightarrow> Inl AttributeError | Some l \<Rightarrow> Inr l)"

text \<open>Line 105: the colour of one corner.\<close>

definition pack_color :: "color \<Rightarrow> error + byte list" where
  "pack_color col =
     pack_BBBB (py_int (col_r col * 255)) (py_int (col_g col * 255)) (py_int (col_b col * 255)) 255"

text \<open>Lines 107 to 112: the texture coordinate of corner \<open>i\<close>, when the flag is set.\<close>

definition pack_texcoord :: "bool \<Rightarrow> vec2 list option \<Rightarrow> polygon \<Rightarrow> nat \<Rightarrow> error + byte list" where
  "pack_texcoord do_texcoord uvs poly i =
     (if do_texcoord then
        (case uvs of
           Some l \<Rightarrow>
             and_then (getitem (poly_loop_indices poly) i) (\<lambda>li.
             and_then (getitem l li) (\<lambda>uv. Inr (pack_f (fst uv) @ pack_f (snd uv))))
         | None \<Rightarrow> Inr (pack_f 0 @ pack_f 0))
      else Inr [])"

text \<open>Lines 93 to 112: the bytes that corner \<open>i\<close> of \<open>poly\<close> appends to \<^verbatim>\<open>data\<close>.\<close>

definition encode_corner ::
  "bool \<Rightarrow> mesh \<Rightarrow> vec2 list option \<Rightarrow> polygon \<Rightarrow> nat \<Rightarrow> error + byte list" where
  "encode_corner do_texcoord m uvs poly i =
     and_then (getitem (poly_loop_indices poly) i) (\<lambda>li.
     and_then (getitem (mesh_loops m) li) (\<lambda>lp.
     and_then (getitem (poly_vertices poly) i) (\<lambda>vi.
     if loop_vertex_index lp \<noteq> vi then Inl AssertionError else
     and_then (getitem (mesh_vertices m) (loop_vertex_index lp)) (\<lambda>v.
     and_then (active_data (mesh_vertex_colors_active m)) (\<lambda>cols.
     and_then (getitem cols vi) (\<lambda>col.
     and_then (pack_color col) (\<lambda>cb.
     and_then (pack_texcoord do_texcoord uvs poly i) (\<lambda>tb.
       Inr (pack_vec3 (vertex_co v) @ pack_vec3 (loop_normal lp) @ cb @ tb)))))))))"

text \<open>\<^verbatim>\<open>for i in range(0,3)\<close>, run over the list of the values of \<open>i\<close>.\<close>

fun encode_corners ::
  "bool \<Rightarrow> mesh \<Rightarrow> vec2 list option \<Rightarrow> polygon \<Rightarrow> byte list \<Rightarrow> nat list \<Rightarrow> error + byte list" where
  "encode_corners do_texcoord m uvs poly d [] = Inr d"
| "encode_corners do_texcoord m uvs poly d (i # is) =
     and_then (encode_corner do_texcoord m uvs poly i) (\<lambda>bs.
       encode_corners do_texcoord m uvs poly (d @ bs) is)"

text \<open>Lines 91 and 92: one polygon.\<close>

definition encode_polygon ::
  "bool \<Rightarrow> mesh \<Rightarrow> vec2 list option \<Rightarrow> byte list \<Rightarrow> polygon \<Rightarrow> error + byte list" where
  "encode_polygon do_texcoord m uvs d poly =
     (if length (poly_loop_indices poly) \<noteq> 3 then Inl AssertionError
      else encode_corners do_texcoord m uvs poly d [0, 1, 2])"

text \<open>Line 90: \<^verbatim>\<open>for poly in mesh.polygons\<close>.\<close>

fun encode_polygons ::
  "bool \<Rightarrow> mesh \<Rightarrow> vec2 list option \<Rightarrow> byte list \<Rightarrow> polygon list \<Rightarrow> error + byte list" where
  "encode_polygons do_texcoord m uvs d [] = Inr d"
| "encode_polygons do_texcoord m uvs d (poly # ps) =
     and_then (encode_polygon do_texcoord m uvs d poly) (\<lambda>d'.
       encode_polygons do_texcoord m uvs d' ps)"

text \<open>
  Lines 82 to 87: the texture coordinates to use and what is printed. Reading
  \<^verbatim>\<open>.data\<close> of an active layer that is \<^verbatim>\<open>None\<close> raises \<^verbatim>\<open>AttributeError\<close>.
\<close>

definition select_uvs :: "bool \<Rightarrow> pystr \<Rightarrow> mesh \<Rightarrow> error + (vec2 list option \<times> message list)" where
  "select_uvs do_texcoord name m =
     (if do_texcoord then
        (if length (mesh_uv_layers m) = 0 then Inr (None, [Warning_no_uv name])
         else and_then (active_data (mesh_uv_layers_active m)) (\<lambda>l. Inr (Some l, [])))
      else Inr (None, []))"

text \<open>Lines 48 to 113: one pass of the loop over \<^verbatim>\<open>to_write\<close>.\<close>

definition process_mesh :: "bool \<Rightarrow> state \<Rightarrow> pystr \<times> mesh \<Rightarrow> error + state" where
  "process_mesh do_texcoord s nm =
     (let name = fst nm; m = snd nm;
          name_begin = length (strings s) in
      and_then (utf8 name) (\<lambda>nb.
      let strings' = strings s @ nb;
          name_end = length strings' in
      and_then (pack_I name_begin) (\<lambda>b1.
      and_then (pack_I name_end) (\<lambda>b2.
      and_then (pack_I (vertex_count s)) (\<lambda>b3.
      and_then (pack_I (vertex_count s + length (mesh_polygons m) * 3)) (\<lambda>b4.
      and_then (select_uvs do_texcoord name m) (\<lambda>uw.
      and_then (encode_polygons do_texcoord m (fst uw) (data s) (mesh_polygons m)) (\<lambda>data'.
        Inr \<lparr>data = data', strings = strings', index = index s @ b1 @ b2 @ b3 @ b4,
             vertex_count = vertex_count s + length (mesh_polygons m) * 3,
             stdout = stdout s @ [Writing name] @ snd uw\<rparr>))))))))"

text \<open>Line 47: \<^verbatim>\<open>for name in to_write\<close>.\<close>

fun process_all :: "bool \<Rightarrow> state \<Rightarrow> (pystr \<times> mesh) list \<Rightarrow> error + state" where
  "process_all do_texcoord s [] = Inr s"
| "process_all do_texcoord s (nm # rest) =
     and_then (process_mesh do_texcoord s nm) (\<lambda>s'. process_all do_texcoord s' rest)"

subsection \<open>The final check and the writer (lines 115 to 135)\<close>

text \<open>
  How a run ends: with an exception and the output file as it then is (\<open>None\<close> when
  \<^verbatim>\<open>open(outfile, 'wb')\<close> was never reached), or with the file written and closed and
  everything that was printed.
\<close>

datatype outcome =
  Aborted error "byte list option"
  | Exported "byte list" "message list"

definition tag_dat0 :: "byte list" where
  "tag_dat0 = [0x64, 0x61, 0x74, 0x30]"

definition tag_str0 :: "byte list" where
  "tag_str0 = [0x73, 0x74, 0x72, 0x30]"

definition tag_idx0 :: "byte list" where
  "tag_idx0 = [0x69, 0x64, 0x78, 0x30]"

text \<open>
  Lines 119 to 135. Each \<^verbatim>\<open>blob.write\<close> appends to the file; a length that does not fit
  32 bits stops the run with what was written before it. \<^verbatim>\<open>blob.tell()\<close> is the number of
  bytes written.
\<close>

definition write_blob :: "state \<Rightarrow> outcome" where
  "write_blob s =
     (let blob1 = [] @ tag_dat0 in
      case pack_I (length (data s)) of
        Inl e \<Rightarrow> Aborted e (Some blob1)
      | Inr l1 \<Rightarrow>
         (let blob2 = blob1 @ l1 @ data s @ tag_str0 in
          case pack_I (length (strings s)) of
            Inl e \<Rightarrow> Aborted e (Some blob2)
          | Inr l2 \<Rightarrow>
             (let blob3 = blob2 @ l2 @ strings s @ tag_idx0 in
              case pack_I (length (index s)) of
                Inl e \<Rightarrow> Aborted e (Some blob3)
              | Inr l3 \<Rightarrow>
                 (let blob = blob3 @ l3 @ index s in
                  Exported blob
                    (stdout s @ [Wrote (length blob) (length (data s) + 8)
                       (length (strings s) + 8) (length (index s) + 8)])))))"

text \<open>The whole script, with the value of \<^verbatim>\<open>do_texcoord\<close> (line 29) as a parameter.\<close>

definition export :: "bool \<Rightarrow> (pystr \<times> mesh) list \<Rightarrow> outcome" where
  "export do_texcoord to_write =
     (case process_all do_texcoord init to_write of Inl e \<Rightarrow> Aborted e None
      | Inr s \<Rightarrow>
          if vertex_count s * (4*3+4*3+4*1) \<noteq> length (data s) then Aborted AssertionError None
          else write_blob s)"

text \<open>Line 29 of the script as it stands.\<close>

definition do_texcoord_source :: bool where
  "do_texcoord_source = False"

section \<open>What the claims speak of\<close>

text \<open>The size of the record of one corner: position, normal, colour and, with the flag, texture coordinate.\<close>

definition record_size :: "bool \<Rightarrow> nat" where
  "record_size do_texcoord = (if do_texcoord then 36 else 28)"

text \<open>The number of triangles of all meshes of a run.\<close>

definition triangle_count :: "(pystr \<times> mesh) list \<Rightarrow> nat" where
  "triangle_count to_write = sum_list (map (\<lambda>nm. length (mesh_polygons (snd nm))) to_write)"

text \<open>A chunk: the tag, the length of the payload in four bytes, the payload.\<close>

definition chunk :: "byte list \<Rightarrow> byte list \<Rightarrow> byte list" where
  "chunk tag body = tag @ le32 (length body) @ body"

text \<open>The number that a little-endian byte string denotes.\<close>

definition unpack_I :: "byte list \<Rightarrow> nat" where
  "unpack_I bs = foldr (\<lambda>b n. unat b + 256 * n) bs 0"

text \<open>A reader of the file format: the tags and payloads of the chunks of a file.\<close>

function read_chunks :: "byte list \<Rightarrow> (byte list \<times> byte list) list option" where
  "read_chunks f =
     (if f = [] then Some []
      else if length f < 8 then None
      else let n = unpack_I (take 4 (drop 4 f)) in
        if length f < 8 + n then None
        else map_option (\<lambda>cs. (take 4 f, take n (drop 8 f)) # cs) (read_chunks (drop (8 + n) f)))"
  by pat_completeness auto
termination
  by (relation "measure length") auto

text \<open>One record of the index and a reader of the index payload.\<close>

record index_record =
  name_begin :: nat
  name_end :: nat
  vertex_begin :: nat
  vertex_end :: nat

function index_records :: "byte list \<Rightarrow> index_record list" where
  "index_records bs =
     (if length bs < 16 then []
      else \<lparr>name_begin = unpack_I (take 4 bs), name_end = unpack_I (take 4 (drop 4 bs)),
            vertex_begin = unpack_I (take 4 (drop 8 bs)),
            vertex_end = unpack_I (take 4 (drop 12 bs))\<rparr> # index_records (drop 16 bs))"
  by pat_completeness auto
termination
  by (relation "measure length") auto

text \<open>Python's \<^verbatim>\<open>xs[b:e]\<close> for \<open>b\<close> and \<open>e\<close> that are not negative.\<close>

definition py_slice :: "'a list \<Rightarrow> nat \<Rightarrow> nat \<Rightarrow> 'a list" where
  "py_slice xs b e = drop b (take e xs)"

text \<open>The bytes of an encoding that did not raise.\<close>

definition the_bytes :: "error + byte list \<Rightarrow> byte list" where
  "the_bytes r = (case r of Inl e \<Rightarrow> [] | Inr bs \<Rightarrow> bs)"

text \<open>
  The records that the index of a run is expected to hold, from the length of \<^verbatim>\<open>strings\<close>
  and the value of \<^verbatim>\<open>vertex_count\<close> before the run.
\<close>

fun index_entries :: "nat \<Rightarrow> nat \<Rightarrow> (pystr \<times> mesh) list \<Rightarrow> index_record list" where
  "index_entries nb vb [] = []"
| "index_entries nb vb (nm # rest) =
     \<lparr>name_begin = nb, name_end = nb + length (the_bytes (utf8 (fst nm))),
      vertex_begin = vb, vertex_end = vb + length (mesh_polygons (snd nm)) * 3\<rparr>
     # index_entries (nb + length (the_bytes (utf8 (fst nm))))
         (vb + length (mesh_polygons (snd nm)) * 3) rest"

definition pack_record :: "index_record \<Rightarrow> byte list" where
  "pack_record r =
     le32 (name_begin r) @ le32 (name_end r) @ le32 (vertex_begin r) @ le32 (vertex_end r)"

text \<open>
  A strict UTF-8 decoder, as \<^verbatim>\<open>bytes.decode("utf8")\<close>: \<open>None\<close> on a truncated or overlong
  sequence, a surrogate or a value above \<^verbatim>\<open>0x10FFFF\<close>.
\<close>

definition continuation :: "byte \<Rightarrow> bool" where
  "continuation b = (0x80 \<le> unat b \<and> unat b < 0xC0)"

fun utf8_decode :: "byte list \<Rightarrow> pystr option" where
  "utf8_decode [] = Some []"
| "utf8_decode (b # bs) =
     (if unat b < 0x80 then map_option (\<lambda>cs. unat b # cs) (utf8_decode bs)
      else if 0xC0 \<le> unat b \<and> unat b < 0xE0 then
        (case bs of
           b1 # r \<Rightarrow>
             (let c = (unat b - 0xC0) * 64 + (unat b1 - 0x80) in
              if continuation b1 \<and> 0x80 \<le> c
              then map_option (\<lambda>cs. c # cs) (utf8_decode r) else None)
         | _ \<Rightarrow> None)
      else if 0xE0 \<le> unat b \<and> unat b < 0xF0 then
        (case bs of
           b1 # b2 # r \<Rightarrow>
             (let c = (unat b - 0xE0) * 4096 + (unat b1 - 0x80) * 64 + (unat b2 - 0x80) in
              if continuation b1 \<and> continuation b2 \<and> 0x800 \<le> c
                 \<and> \<not> (0xD800 \<le> c \<and> c \<le> 0xDFFF)
              then map_option (\<lambda>cs. c # cs) (utf8_decode r) else None)
         | _ \<Rightarrow> None)
      else if 0xF0 \<le> unat b \<and> unat b < 0xF8 then
        (case bs of
           b1 # b2 # b3 # r \<Rightarrow>
             (let c = (unat b - 0xF0) * 262144 + (unat b1 - 0x80) * 4096
                      + (unat b2 - 0x80) * 64 + (unat b3 - 0x80) in
              if continuation b1 \<and> continuation b2 \<and> continuation b3
                 \<and> 0x10000 \<le> c \<and> c < 0x110000
              then map_option (\<lambda>cs. c # cs) (utf8_decode r) else None)
         | _ \<Rightarrow> None)
      else None)"

text \<open>The payload of the first chunk of a file that carries the tag; empty when there is none.\<close>

definition payload :: "byte list \<Rightarrow> byte list \<Rightarrow> byte list" where
  "payload tag f =
     (case read_chunks f of None \<Rightarrow> []
      | Some cs \<Rightarrow> (case map_of cs tag of None \<Rightarrow> [] | Some p \<Rightarrow> p))"

section \<open>Example scenes\<close>

text \<open>
  One triangle in the plane \<open>z = 0\<close> with the normal \<open>(0, 0, 1)\<close>, all three corners pure
  red, no texture coordinates. \<^verbatim>\<open>0x3F800000\<close> is the float \<open>1.0\<close>.
\<close>

definition tri_mesh :: mesh where
  "tri_mesh =
     \<lparr>mesh_polygons = [\<lparr>poly_loop_indices = [0, 1, 2], poly_vertices = [0, 1, 2]\<rparr>],
      mesh_loops = [\<lparr>loop_vertex_index = 0, loop_normal = (0, 0, 0x3F800000)\<rparr>,
                    \<lparr>loop_vertex_index = 1, loop_normal = (0, 0, 0x3F800000)\<rparr>,
                    \<lparr>loop_vertex_index = 2, loop_normal = (0, 0, 0x3F800000)\<rparr>],
      mesh_vertices = [\<lparr>vertex_co = (0, 0, 0)\<rparr>, \<lparr>vertex_co = (0x3F800000, 0, 0)\<rparr>,
                       \<lparr>vertex_co = (0, 0x3F800000, 0)\<rparr>],
      mesh_vertex_colors_active =
        Some [\<lparr>col_r = 1, col_g = 0, col_b = 0\<rparr>, \<lparr>col_r = 1, col_g = 0, col_b = 0\<rparr>,
              \<lparr>col_r = 1, col_g = 0, col_b = 0\<rparr>],
      mesh_uv_layers = [], mesh_uv_layers_active = None\<rparr>"

text \<open>The name \<^verbatim>\<open>"Tri"\<close>.\<close>

definition name_Tri :: pystr where
  "name_Tri = [0x54, 0x72, 0x69]"

definition tri_scene :: "(pystr \<times> mesh) list" where
  "tri_scene = [(name_Tri, tri_mesh)]"

text \<open>
  What the script leaves for that triangle: \<^verbatim>\<open>data\<close>, \<^verbatim>\<open>index\<close>, the state after the loop,
  the file and what is printed.
\<close>

definition tri_data :: "byte list" where
  "tri_data =
     [0, 0, 0, 0, 0, 0, 0, 0, 0, 0, 0, 0, 0, 0, 0, 0, 0, 0, 0, 0, 0, 0, 128, 63, 255, 0,
      0, 255, 0, 0, 128, 63, 0, 0, 0, 0, 0, 0, 0, 0, 0, 0, 0, 0, 0, 0, 0, 0, 0, 0, 128,
      63, 255, 0, 0, 255, 0, 0, 0, 0, 0, 0, 128, 63, 0, 0, 0, 0, 0, 0, 0, 0, 0, 0, 0, 0,
      0, 0, 128, 63, 255, 0, 0, 255]"

definition tri_index :: "byte list" where
  "tri_index = [0, 0, 0, 0, 3, 0, 0, 0, 0, 0, 0, 0, 3, 0, 0, 0]"

definition tri_state :: state where
  "tri_state =
     \<lparr>data = tri_data, strings = [0x54, 0x72, 0x69], index = tri_index, vertex_count = 3,
      stdout = [Writing name_Tri]\<rparr>"

definition tri_out :: "message list" where
  "tri_out = [Writing name_Tri, Wrote 127 92 11 24]"

definition tri_blob :: "byte list" where
  "tri_blob =
     [100, 97, 116, 48, 84, 0, 0, 0, 0, 0, 0, 0, 0, 0, 0, 0, 0, 0, 0, 0, 0, 0, 0, 0, 0,
      0, 0, 0, 0, 0, 128, 63, 255, 0, 0, 255, 0, 0, 128, 63, 0, 0, 0, 0, 0, 0, 0, 0, 0,
      0, 0, 0, 0, 0, 0, 0, 0, 0, 128, 63, 255, 0, 0, 255, 0, 0, 0, 0, 0, 0, 128, 63, 0,
      0, 0, 0, 0, 0, 0, 0, 0, 0, 0, 0, 0, 0, 128, 63, 255, 0, 0, 255, 115, 116, 114, 48,
      3, 0, 0, 0, 84, 114, 105, 105, 100, 120, 48, 16, 0, 0, 0, 0, 0, 0, 0, 3, 0, 0, 0,
      0, 0, 0, 0, 3, 0, 0, 0]"

text \<open>\<^verbatim>\<open>data\<close> for the same triangle when \<^verbatim>\<open>do_texcoord\<close> is set: 36 bytes per corner.\<close>

definition tri_data_uv :: "byte list" where
  "tri_data_uv =
     [0, 0, 0, 0, 0, 0, 0, 0, 0, 0, 0, 0, 0, 0, 0, 0, 0, 0, 0, 0, 0, 0, 128, 63, 255, 0,
      0, 255, 0, 0, 0, 0, 0, 0, 0, 0, 0, 0, 128, 63, 0, 0, 0, 0, 0, 0, 0, 0, 0, 0, 0, 0,
      0, 0, 0, 0, 0, 0, 128, 63, 255, 0, 0, 255, 0, 0, 0, 0, 0, 0, 0, 0, 0, 0, 0, 0, 0,
      0, 128, 63, 0, 0, 0, 0, 0, 0, 0, 0, 0, 0, 0, 0, 0, 0, 128, 63, 255, 0, 0, 255, 0,
      0, 0, 0, 0, 0, 0, 0]"

text \<open>
  A square of two triangles that share the vertices 0 and 2. The colour layer holds one
  colour per loop: the corners of the first triangle (loops 0 to 2) are orange
  \<open>(1, 1/2, 0)\<close>, those of the second (loops 3 to 5) are \<open>(0, 999/1000, 1)\<close>.
\<close>

definition seam_colors :: "color list" where
  "seam_colors =
     [\<lparr>col_r = 1, col_g = 1 / 2, col_b = 0\<rparr>, \<lparr>col_r = 1, col_g = 1 / 2, col_b = 0\<rparr>,
      \<lparr>col_r = 1, col_g = 1 / 2, col_b = 0\<rparr>,
      \<lparr>col_r = 0, col_g = 999 / 1000, col_b = 1\<rparr>,
      \<lparr>col_r = 0, col_g = 999 / 1000, col_b = 1\<rparr>,
      \<lparr>col_r = 0, col_g = 999 / 1000, col_b = 1\<rparr>]"

definition seam_mesh :: mesh where
  "seam_mesh =
     \<lparr>mesh_polygons = [\<lparr>poly_loop_indices = [0, 1, 2], poly_vertices = [0, 1, 2]\<rparr>,
                       \<lparr>poly_loop_indices = [3, 4, 5], poly_vertices = [0, 2, 3]\<rparr>],
      mesh_loops = [\<lparr>loop_vertex_index = 0, loop_normal = (0, 0, 0x3F800000)\<rparr>,
                    \<lparr>loop_vertex_index = 1, loop_normal = (0, 0, 0x3F800000)\<rparr>,
                    \<lparr>loop_vertex_index = 2, loop_normal = (0, 0, 0x3F800000)\<rparr>,
                    \<lparr>loop_vertex_index = 0, loop_normal = (0, 0, 0x3F800000)\<rparr>,
                    \<lparr>loop_vertex_index = 2, loop_normal = (0, 0, 0x3F800000)\<rparr>,
                    \<lparr>loop_vertex_index = 3, loop_normal = (0, 0, 0x3F800000)\<rparr>],
      mesh_vertices = [\<lparr>vertex_co = (0, 0, 0)\<rparr>, \<lparr>vertex_co = (0x3F800000, 0, 0)\<rparr>,
                       \<lparr>vertex_co = (0x3F800000, 0x3F800000, 0)\<rparr>,
                       \<lparr>vertex_co = (0, 0x3F800000, 0)\<rparr>],
      mesh_vertex_colors_active = Some seam_colors,
      mesh_uv_layers = [], mesh_uv_layers_active = None\<rparr>"

text \<open>
  The records of two corners of the second triangle of the square, as the script writes
  them: corner 0 (loop 3, vertex 0) and corner 2 (loop 5, vertex 3).
\<close>

definition seam_corner_0 :: "byte list" where
  "seam_corner_0 =
     [0, 0, 0, 0, 0, 0, 0, 0, 0, 0, 0, 0, 0, 0, 0, 0, 0, 0, 0, 0, 0, 0, 128, 63,
      255, 127, 0, 255]"

definition seam_corner_2 :: "byte list" where
  "seam_corner_2 =
     [0, 0, 0, 0, 0, 0, 128, 63, 0, 0, 0, 0, 0, 0, 0, 0, 0, 0, 0, 0, 0, 0, 128, 63,
      0, 254, 255, 255]"

definition tri_state_uv :: state where
  "tri_state_uv =
     \<lparr>data = tri_data_uv, strings = [0x54, 0x72, 0x69], index = tri_index, vertex_count = 3,
      stdout = [Writing name_Tri, Warning_no_uv name_Tri]\<rparr>"

text \<open>The name \<^verbatim>\<open>"Caf"\<close> with \<^verbatim>\<open>U+00E9\<close> (e acute) after it: five bytes in UTF-8.\<close>

definition name_Cafe :: pystr where
  "name_Cafe = [0x43, 0x61, 0x66, 0xE9]"

text \<open>A scene of two meshes: the square, then the triangle.\<close>

definition two_scene :: "(pystr \<times> mesh) list" where
  "two_scene = [(name_Cafe, seam_mesh), (name_Tri, tri_mesh)]"

definition two_data :: "byte list" where
  "two_data =
     [0, 0, 0, 0, 0, 0, 0, 0, 0, 0, 0, 0, 0, 0, 0, 0, 0, 0, 0, 0, 0, 0, 128, 63, 255,
      127, 0, 255, 0, 0, 128, 63, 0, 0, 0, 0, 0, 0, 0, 0, 0, 0, 0, 0, 0, 0, 0, 0, 0, 0,
      128, 63, 255, 127, 0, 255, 0, 0, 128, 63, 0, 0, 128, 63, 0, 0, 0, 0, 0, 0, 0, 0, 0,
      0, 0, 0, 0, 0, 128, 63, 255, 127, 0, 255, 0, 0, 0, 0, 0, 0, 0, 0, 0, 0, 0, 0, 0, 0,
      0, 0, 0, 0, 0, 0, 0, 0, 128, 63, 255, 127, 0, 255, 0, 0, 128, 63, 0, 0, 128, 63, 0,
      0, 0, 0, 0, 0, 0, 0, 0, 0, 0, 0, 0, 0, 128, 63, 255, 127, 0, 255, 0, 0, 0, 0, 0, 0,
      128, 63, 0, 0, 0, 0, 0, 0, 0, 0, 0, 0, 0, 0, 0, 0, 128, 63, 0, 254, 255, 255, 0, 0,
      0, 0, 0, 0, 0, 0, 0, 0, 0, 0, 0, 0, 0, 0, 0, 0, 0, 0, 0, 0, 128, 63, 255, 0, 0,
      255, 0, 0, 128, 63, 0, 0, 0, 0, 0, 0, 0, 0, 0, 0, 0, 0, 0, 0, 0, 0, 0, 0, 128, 63,
      255, 0, 0, 255, 0, 0, 0, 0, 0, 0, 128, 63, 0, 0, 0, 0, 0, 0, 0, 0, 0, 0, 0, 0, 0,
      0, 128, 63, 255, 0, 0, 255]"

definition two_strings :: "byte list" where
  "two_strings = [67, 97, 102, 195, 169, 84, 114, 105]"

definition two_index :: "byte list" where
  "two_index =
     [0, 0, 0, 0, 5, 0, 0, 0, 0, 0, 0, 0, 6, 0, 0, 0, 5, 0, 0, 0, 8, 0, 0, 0, 6, 0, 0, 0,
      9, 0, 0, 0]"

definition two_state :: state where
  "two_state =
     \<lparr>data = two_data, strings = two_strings, index = two_index, vertex_count = 9,
      stdout = [Writing name_Cafe, Writing name_Tri]\<rparr>"

definition two_out :: "message list" where
  "two_out = [Writing name_Cafe, Writing name_Tri, Wrote 316 260 16 40]"

definition two_blob :: "byte list" where
  "two_blob =
     [100, 97, 116, 48, 252, 0, 0, 0, 0, 0, 0, 0, 0, 0, 0, 0, 0, 0, 0, 0, 0, 0, 0, 0, 0,
      0, 0, 0, 0, 0, 128, 63, 255, 127, 0, 255, 0, 0, 128, 63, 0, 0, 0, 0, 0, 0, 0, 0, 0,
      0, 0, 0, 0, 0, 0, 0, 0, 0, 128, 63, 255, 127, 0, 255, 0, 0, 128, 63, 0, 0, 128, 63,
      0, 0, 0, 0, 0, 0, 0, 0, 0, 0, 0, 0, 0, 0, 128, 63, 255, 127, 0, 255, 0, 0, 0, 0, 0,
      0, 0, 0, 0, 0, 0, 0, 0, 0, 0, 0, 0, 0, 0, 0, 0, 0, 128, 63, 255, 127, 0, 255, 0, 0,
      128, 63, 0, 0, 128, 63, 0, 0, 0, 0, 0, 0, 0, 0, 0, 0, 0, 0, 0, 0, 128, 63, 255,
      127, 0, 255, 0, 0, 0, 0, 0, 0, 128, 63, 0, 0, 0, 0, 0, 0, 0, 0, 0, 0, 0, 0, 0, 0,
      128, 63, 0, 254, 255, 255, 0, 0, 0, 0, 0, 0, 0, 0, 0, 0, 0, 0, 0, 0, 0, 0, 0, 0, 0,
      0, 0, 0, 128, 63, 255, 0, 0, 255, 0, 0, 128, 63, 0, 0, 0, 0, 0, 0, 0, 0, 0, 0, 0,
      0, 0, 0, 0, 0, 0, 0, 128, 63, 255, 0, 0, 255, 0, 0, 0, 0, 0, 0, 128, 63, 0, 0, 0,
      0, 0, 0, 0, 0, 0, 0, 0, 0, 0, 0, 128, 63, 255, 0, 0, 255, 115, 116, 114, 48, 8, 0,
      0, 0, 67, 97, 102, 195, 169, 84, 114, 105, 105, 100, 120, 48, 32, 0, 0, 0, 0, 0, 0,
      0, 5, 0, 0, 0, 0, 0, 0, 0, 6, 0, 0, 0, 5, 0, 0, 0, 8, 0, 0, 0, 6, 0, 0, 0, 9, 0, 0,
      0]"

text \<open>A mesh whose only face still has four corners after the conversion.\<close>

definition quad_mesh :: mesh where
  "quad_mesh =
     \<lparr>mesh_polygons = [\<lparr>poly_loop_indices = [0, 1, 2, 3], poly_vertices = [0, 1, 2, 3]\<rparr>],
      mesh_loops = [\<lparr>loop_vertex_index = 0, loop_normal = (0, 0, 0x3F800000)\<rparr>,
                    \<lparr>loop_vertex_index = 1, loop_normal = (0, 0, 0x3F800000)\<rparr>,
                    \<lparr>loop_vertex_index = 2, loop_normal = (0, 0, 0x3F800000)\<rparr>,
                    \<lparr>loop_vertex_index = 3, loop_normal = (0, 0, 0x3F800000)\<rparr>],
      mesh_vertices = [\<lparr>vertex_co = (0, 0, 0)\<rparr>, \<lparr>vertex_co = (0x3F800000, 0, 0)\<rparr>,
                       \<lparr>vertex_co = (0x3F800000, 0x3F800000, 0)\<rparr>,
                       \<lparr>vertex_co = (0, 0x3F800000, 0)\<rparr>],
      mesh_vertex_colors_active =
        Some [\<lparr>col_r = 1, col_g = 0, col_b = 0\<rparr>, \<lparr>col_r = 1, col_g = 0, col_b = 0\<rparr>,
              \<lparr>col_r = 1, col_g = 0, col_b = 0\<rparr>, \<lparr>col_r = 1, col_g = 0, col_b = 0\<rparr>],
      mesh_uv_layers = [], mesh_uv_layers_active = None\<rparr>"

text \<open>A mesh object without geometry and without a colour layer, and the file written for it.\<close>

definition bare_mesh :: mesh where
  "bare_mesh =
     \<lparr>mesh_polygons = [], mesh_loops = [], mesh_vertices = [],
      mesh_vertex_colors_active = None, mesh_uv_layers = [], mesh_uv_layers_active = None\<rparr>"

definition bare_scene :: "(pystr \<times> mesh) list" where
  "bare_scene = [(name_Tri, bare_mesh)]"

definition bare_out :: "message list" where
  "bare_out = [Writing name_Tri, Wrote 43 8 11 24]"

definition bare_blob :: "byte list" where
  "bare_blob =
     [100, 97, 116, 48, 0, 0, 0, 0, 115, 116, 114, 48, 3, 0, 0, 0, 84, 114, 105, 105,
      100, 120, 48, 16, 0, 0, 0, 0, 0, 0, 0, 3, 0, 0, 0, 0, 0, 0, 0, 0, 0, 0, 0]"

text \<open>The triangle without its colour layer.\<close>

definition tri_mesh_no_color :: mesh where
  "tri_mesh_no_color = tri_mesh\<lparr>mesh_vertex_colors_active := None\<rparr>"

section \<open>Lemmas\<close>

subsection \<open>Exceptions and lengths\<close>

lemma and_then_Inl [simp]: "and_then (Inl e) f = Inl e"
  by (simp add: and_then_def)

lemma and_then_Inr [simp]: "and_then (Inr x) f = f x"
  by (simp add: and_then_def)

lemma and_then_eq_Inr: "and_then m f = Inr y \<longleftrightarrow> (\<exists>x. m = Inr x \<and> f x = Inr y)"
  by (cases m) simp_all

lemma and_then_eq_Inl: "and_then m f = Inl e \<longleftrightarrow> m = Inl e \<or> (\<exists>x. m = Inr x \<and> f x = Inl e)"
  by (cases m) simp_all

lemma length_le32 [simp]: "length (le32 n) = 4"
  by (simp add: le32_def)

lemma length_pack_f [simp]: "length (pack_f x) = 4"
  by (simp add: pack_f_def)

lemma length_pack_vec3 [simp]: "length (pack_vec3 v) = 12"
  by (cases v) (simp add: pack_vec3_def)

lemma pack_I_Inr: "pack_I n = Inr b \<longleftrightarrow> n < 2 ^ 32 \<and> b = le32 n"
  by (auto simp: pack_I_def)

lemma pack_B_Inr: "pack_B v = Inr b \<longleftrightarrow> 0 \<le> v \<and> v \<le> 255 \<and> b = of_int v"
  by (auto simp: pack_B_def)

lemma pack_BBBB_Inr:
  "pack_BBBB a b c d = Inr bs \<longleftrightarrow>
     (0 \<le> a \<and> a \<le> 255) \<and> (0 \<le> b \<and> b \<le> 255) \<and> (0 \<le> c \<and> c \<le> 255) \<and> (0 \<le> d \<and> d \<le> 255) \<and>
     bs = [of_int a, of_int b, of_int c, of_int d]"
  by (auto simp: pack_BBBB_def and_then_eq_Inr pack_B_Inr)

lemma length_pack_color: "pack_color col = Inr cb \<Longrightarrow> length cb = 4"
  by (auto simp: pack_color_def pack_BBBB_Inr)

lemma length_pack_texcoord:
  "pack_texcoord do_texcoord uvs poly i = Inr tb \<Longrightarrow> length tb = (if do_texcoord then 8 else 0)"
  by (auto simp: pack_texcoord_def and_then_eq_Inr split: if_splits option.splits)

lemma length_encode_corner:
  "encode_corner do_texcoord m uvs poly i = Inr bs \<Longrightarrow> length bs = record_size do_texcoord"
  by (auto simp: encode_corner_def and_then_eq_Inr record_size_def
      dest!: length_pack_color length_pack_texcoord split: if_splits)

lemma length_encode_corners:
  "encode_corners do_texcoord m uvs poly d is = Inr d' \<Longrightarrow>
     length d' = length d + length is * record_size do_texcoord"
  by (induction "is" arbitrary: d) (auto simp: and_then_eq_Inr dest!: length_encode_corner)

lemma length_encode_polygon:
  "encode_polygon do_texcoord m uvs d poly = Inr d' \<Longrightarrow>
     length d' = length d + 3 * record_size do_texcoord"
  by (auto simp: encode_polygon_def simp del: encode_corners.simps split: if_splits
      dest!: length_encode_corners)

lemma length_encode_polygons:
  "encode_polygons do_texcoord m uvs d ps = Inr d' \<Longrightarrow>
     length d' = length d + length ps * 3 * record_size do_texcoord"
  by (induction ps arbitrary: d)
    (auto simp: and_then_eq_Inr algebra_simps dest!: length_encode_polygon)

lemma process_mesh_Inr:
  assumes "process_mesh do_texcoord s nm = Inr s'"
  shows "\<exists>nb uw.
     utf8 (fst nm) = Inr nb \<and>
     select_uvs do_texcoord (fst nm) (snd nm) = Inr uw \<and>
     encode_polygons do_texcoord (snd nm) (fst uw) (data s) (mesh_polygons (snd nm)) = Inr (data s') \<and>
     length (strings s) < 2 ^ 32 \<and> length (strings s) + length nb < 2 ^ 32 \<and>
     vertex_count s < 2 ^ 32 \<and> vertex_count s + length (mesh_polygons (snd nm)) * 3 < 2 ^ 32 \<and>
     strings s' = strings s @ nb \<and>
     index s' = index s @ le32 (length (strings s)) @ le32 (length (strings s) + length nb)
        @ le32 (vertex_count s) @ le32 (vertex_count s + length (mesh_polygons (snd nm)) * 3) \<and>
     vertex_count s' = vertex_count s + length (mesh_polygons (snd nm)) * 3 \<and>
     stdout s' = stdout s @ [Writing (fst nm)] @ snd uw"
  using assms
  by (auto simp: process_mesh_def Let_def and_then_eq_Inr pack_I_Inr)

subsection \<open>The readers\<close>

lemma four_digits:
  fixes n :: nat
  assumes "n < 4294967296"
  shows "n mod 256 + (256 * (n div 256 mod 256)
           + (65536 * (n div 65536 mod 256) + 16777216 * (n div 16777216))) = n"
proof -
  define q1 where "q1 = n div 256"
  define q2 where "q2 = q1 div 256"
  define q3 where "q3 = q2 div 256"
  have a: "n div 65536 = q2"
    using div_mult2_eq [of n 256 256] by (simp add: q1_def q2_def)
  have b: "n div 16777216 = q3"
    using div_mult2_eq [of n 65536 256] a by (simp add: q3_def)
  have 1: "n = n mod 256 + 256 * q1"
    by (simp add: q1_def)
  have 2: "q1 = q1 mod 256 + 256 * q2"
    by (simp add: q2_def)
  have 3: "q2 = q2 mod 256 + 256 * q3"
    by (simp add: q3_def)
  show ?thesis
    unfolding a b q1_def [symmetric] using 1 2 3 by linarith
qed

lemma unpack_I_le32: "n < 2 ^ 32 \<Longrightarrow> unpack_I (le32 n) = n"
  by (simp add: unpack_I_def le32_def unat_of_nat four_digits)

declare read_chunks.simps [simp del] index_records.simps [simp del]

lemma read_chunks_Nil [simp]: "read_chunks [] = Some []"
  by (simp add: read_chunks.simps)

lemma read_chunks_chunk:
  assumes "length tag = 4" "length body < 2 ^ 32"
  shows "read_chunks (chunk tag body @ rest) =
           map_option (\<lambda>cs. (tag, body) # cs) (read_chunks rest)"
  using assms
  by (subst read_chunks.simps) (auto simp: chunk_def unpack_I_le32)

lemma index_records_Nil [simp]: "index_records [] = []"
  by (simp add: index_records.simps)

lemma index_records_pack_record:
  assumes "name_begin r < 2 ^ 32" "name_end r < 2 ^ 32" "vertex_begin r < 2 ^ 32" "vertex_end r < 2 ^ 32"
  shows "index_records (pack_record r @ rest) = r # index_records rest"
  using assms
  by (subst index_records.simps) (simp add: pack_record_def unpack_I_le32)

subsection \<open>The loop over the meshes\<close>

lemma triangle_count_Cons [simp]:
  "triangle_count (nm # rest) = length (mesh_polygons (snd nm)) + triangle_count rest"
  by (simp add: triangle_count_def)

lemma triangle_count_Nil [simp]: "triangle_count [] = 0"
  by (simp add: triangle_count_def)

lemma process_all_counts:
  "process_all do_texcoord s to_write = Inr s' \<Longrightarrow>
     vertex_count s' = vertex_count s + triangle_count to_write * 3 \<and>
     length (data s') = length (data s) + triangle_count to_write * 3 * record_size do_texcoord"
proof (induction to_write arbitrary: s)
  case Nil
  then show ?case by simp
next
  case (Cons nm rest)
  from Cons.prems obtain s1 where
    1: "process_mesh do_texcoord s nm = Inr s1" and 2: "process_all do_texcoord s1 rest = Inr s'"
    by (auto simp: and_then_eq_Inr)
  from process_mesh_Inr [OF 1] obtain uw where
    e: "encode_polygons do_texcoord (snd nm) (fst uw) (data s) (mesh_polygons (snd nm)) = Inr (data s1)"
    and v: "vertex_count s1 = vertex_count s + length (mesh_polygons (snd nm)) * 3"
    by auto
  from length_encode_polygons [OF e] v Cons.IH [OF 2] show ?case
    by (simp add: algebra_simps)
qed

lemma process_all_strings:
  "process_all do_texcoord s to_write = Inr s' \<Longrightarrow>
     strings s' = strings s @ concat (map (\<lambda>nm. the_bytes (utf8 (fst nm))) to_write) \<and>
     (\<forall>nm \<in> set to_write. utf8 (fst nm) = Inr (the_bytes (utf8 (fst nm))))"
proof (induction to_write arbitrary: s)
  case Nil
  then show ?case by simp
next
  case (Cons nm rest)
  from Cons.prems obtain s1 where
    1: "process_mesh do_texcoord s nm = Inr s1" and 2: "process_all do_texcoord s1 rest = Inr s'"
    by (auto simp: and_then_eq_Inr)
  from process_mesh_Inr [OF 1] obtain nb where
    u: "utf8 (fst nm) = Inr nb" and st: "strings s1 = strings s @ nb"
    by blast
  from u st Cons.IH [OF 2] show ?case
    by (simp add: the_bytes_def)
qed

lemma process_all_index:
  "process_all do_texcoord s to_write = Inr s' \<Longrightarrow>
     index s' = index s @ concat (map pack_record
        (index_entries (length (strings s)) (vertex_count s) to_write)) \<and>
     (\<forall>r \<in> set (index_entries (length (strings s)) (vertex_count s) to_write).
        name_begin r < 2 ^ 32 \<and> name_end r < 2 ^ 32 \<and> vertex_begin r < 2 ^ 32 \<and> vertex_end r < 2 ^ 32)"
proof (induction to_write arbitrary: s)
  case Nil
  then show ?case by simp
next
  case (Cons nm rest)
  from Cons.prems obtain s1 where
    1: "process_mesh do_texcoord s nm = Inr s1" and 2: "process_all do_texcoord s1 rest = Inr s'"
    by (auto simp: and_then_eq_Inr)
  from process_mesh_Inr [OF 1] obtain nb where
    u: "utf8 (fst nm) = Inr nb" and st: "strings s1 = strings s @ nb"
    and b: "length (strings s) < 2 ^ 32" "length (strings s) + length nb < 2 ^ 32"
       "vertex_count s < 2 ^ 32" "vertex_count s + length (mesh_polygons (snd nm)) * 3 < 2 ^ 32"
    and ix: "index s1 = index s @ le32 (length (strings s)) @ le32 (length (strings s) + length nb)
        @ le32 (vertex_count s) @ le32 (vertex_count s + length (mesh_polygons (snd nm)) * 3)"
    and v: "vertex_count s1 = vertex_count s + length (mesh_polygons (snd nm)) * 3"
    by blast
  from u st b ix v Cons.IH [OF 2] show ?case
    by (simp add: the_bytes_def pack_record_def)
qed

lemma index_records_packed:
  "\<forall>r \<in> set rs. name_begin r < 2 ^ 32 \<and> name_end r < 2 ^ 32 \<and> vertex_begin r < 2 ^ 32 \<and> vertex_end r < 2 ^ 32
   \<Longrightarrow> index_records (concat (map pack_record rs)) = rs"
  by (induction rs) (simp_all add: index_records_pack_record)

subsection \<open>The final check and the writer\<close>

lemma write_blob_Exported:
  "write_blob s = Exported f out \<longleftrightarrow>
     length (data s) < 2 ^ 32 \<and> length (strings s) < 2 ^ 32 \<and> length (index s) < 2 ^ 32 \<and>
     f = chunk tag_dat0 (data s) @ chunk tag_str0 (strings s) @ chunk tag_idx0 (index s) \<and>
     out = stdout s @ [Wrote (length f) (length (data s) + 8) (length (strings s) + 8)
                        (length (index s) + 8)]"
  by (auto simp: write_blob_def Let_def chunk_def pack_I_def split: sum.splits)

lemma write_blob_Aborted:
  "write_blob s = Aborted e file \<Longrightarrow> e = StructError \<and> file \<noteq> None"
  by (auto simp: write_blob_def Let_def pack_I_def split: sum.splits if_splits)

lemma export_Exported:
  "export do_texcoord to_write = Exported f out \<longleftrightarrow>
     (\<exists>s. process_all do_texcoord init to_write = Inr s \<and>
        vertex_count s * 28 = length (data s) \<and>
        length (data s) < 2 ^ 32 \<and> length (strings s) < 2 ^ 32 \<and> length (index s) < 2 ^ 32 \<and>
        f = chunk tag_dat0 (data s) @ chunk tag_str0 (strings s) @ chunk tag_idx0 (index s) \<and>
        out = stdout s @ [Wrote (length f) (length (data s) + 8) (length (strings s) + 8)
                           (length (index s) + 8)])"
  by (auto simp: export_def write_blob_Exported split: sum.splits if_splits)

lemma export_loop_raises:
  "process_all do_texcoord init to_write = Inl e \<Longrightarrow>
     export do_texcoord to_write = Aborted e None"
  by (simp add: export_def)

lemma length_tags [simp]:
  "length tag_dat0 = 4" "length tag_str0 = 4" "length tag_idx0 = 4"
  by (simp_all add: tag_dat0_def tag_str0_def tag_idx0_def)

lemma read_chunks_three:
  assumes "length d < 2 ^ 32" "length st < 2 ^ 32" "length ix < 2 ^ 32"
  shows "read_chunks (chunk tag_dat0 d @ chunk tag_str0 st @ chunk tag_idx0 ix) =
           Some [(tag_dat0, d), (tag_str0, st), (tag_idx0, ix)]"
proof -
  have "read_chunks (chunk tag_idx0 ix @ []) = Some [(tag_idx0, ix)]"
    using assms by (simp only: read_chunks_chunk length_tags read_chunks_Nil) simp
  then show ?thesis
    using assms by (simp add: read_chunks_chunk)
qed

lemma length_chunk [simp]: "length (chunk tag body) = length tag + 4 + length body"
  by (simp add: chunk_def)

subsection \<open>Decoding what \<^verbatim>\<open>bytes(name, "utf8")\<close> encodes\<close>

lemma byte_of_nat: "n < 256 \<Longrightarrow> unat (of_nat n :: byte) = n"
  by (simp add: unat_of_nat)

lemma split64:
  fixes q k :: nat
  shows "q div 64 * (64 * k) + q mod 64 * k = q * k"
proof -
  have "q * k = (q div 64 * 64 + q mod 64) * k"
    by simp
  also have "\<dots> = q div 64 * (64 * k) + q mod 64 * k"
    by (simp only: add_mult_distrib mult.assoc)
  finally show ?thesis
    by simp
qed

lemma utf8_decode_1:
  assumes "unat b0 = c" "c < 0x80"
  shows "utf8_decode (b0 # rest) = map_option (\<lambda>cs. c # cs) (utf8_decode rest)"
  using assms by simp

lemma utf8_decode_2:
  assumes "unat b0 = 0xC0 + c div 64" "unat b1 = 0x80 + c mod 64" "0x80 \<le> c" "c < 0x800"
  shows "utf8_decode (b0 # b1 # rest) = map_option (\<lambda>cs. c # cs) (utf8_decode rest)"
proof -
  have d: "c div 64 < 32" using assms by simp
  have m: "c mod 64 < 64" by simp
  have c: "c div 64 * 64 + c mod 64 = c" by simp
  show ?thesis
    using assms(3) d m by (simp add: assms(1,2) continuation_def Let_def c)
qed

lemma utf8_decode_3:
  assumes "unat b0 = 0xE0 + c div 4096" "unat b1 = 0x80 + c div 64 mod 64"
    "unat b2 = 0x80 + c mod 64" "0x800 \<le> c" "c < 0x10000" "\<not> (0xD800 \<le> c \<and> c \<le> 0xDFFF)"
  shows "utf8_decode (b0 # b1 # b2 # rest) = map_option (\<lambda>cs. c # cs) (utf8_decode rest)"
proof -
  have d: "c div 4096 < 16" using assms by simp
  have m: "c mod 64 < 64" "c div 64 mod 64 < 64" by simp_all
  have "c div 4096 = c div 64 div 64"
    using div_mult2_eq [of c 64 64] by simp
  then have "c div 4096 * 4096 + c div 64 mod 64 * 64 = c div 64 * 64"
    using split64 [of "c div 64" 64] by simp
  then have c: "c div 4096 * 4096 + c div 64 mod 64 * 64 + c mod 64 = c"
    by simp
  show ?thesis
    using assms(4,6) d m by (simp add: assms(1,2,3) continuation_def Let_def c)
qed

lemma utf8_decode_4:
  assumes "unat b0 = 0xF0 + c div 262144" "unat b1 = 0x80 + c div 4096 mod 64"
    "unat b2 = 0x80 + c div 64 mod 64" "unat b3 = 0x80 + c mod 64" "0x10000 \<le> c" "c < 0x110000"
  shows "utf8_decode (b0 # b1 # b2 # b3 # rest) = map_option (\<lambda>cs. c # cs) (utf8_decode rest)"
proof -
  have d: "c div 262144 < 8" using assms by simp
  have m: "c mod 64 < 64" "c div 64 mod 64 < 64" "c div 4096 mod 64 < 64" by simp_all
  have e1: "c div 4096 = c div 64 div 64"
    using div_mult2_eq [of c 64 64] by simp
  have e2: "c div 262144 = c div 4096 div 64"
    using div_mult2_eq [of c 4096 64] by simp
  have "c div 262144 * 262144 + c div 4096 mod 64 * 4096 = c div 4096 * 4096"
    using split64 [of "c div 4096" 4096] by (simp add: e2)
  moreover have "c div 4096 * 4096 + c div 64 mod 64 * 64 = c div 64 * 64"
    using split64 [of "c div 64" 64] by (simp add: e1)
  ultimately have c:
    "c div 262144 * 262144 + c div 4096 mod 64 * 4096 + c div 64 mod 64 * 64 + c mod 64 = c"
    by simp
  show ?thesis
    using assms(5,6) d m by (simp add: assms(1,2,3,4) continuation_def Let_def c)
qed

lemma utf8_decode_char:
  assumes "utf8_char c = Inr bs"
  shows "utf8_decode (bs @ rest) = map_option (\<lambda>cs. c # cs) (utf8_decode rest)"
proof -
  consider (one) "c < 0x80" | (two) "0x80 \<le> c" "c < 0x800"
    | (three) "0x800 \<le> c" "c < 0x10000" | (four) "0x10000 \<le> c" "c < 0x110000"
    | (none) "0x110000 \<le> c"
    by linarith
  then show ?thesis
  proof cases
    case one
    with assms have bs: "bs = [of_nat c]"
      by (simp add: utf8_char_def)
    from one have 1: "unat (of_nat c :: byte) = c"
      by (intro byte_of_nat) simp
    from 1 one show ?thesis
      unfolding bs append.simps by (rule utf8_decode_1)
  next
    case two
    with assms have bs: "bs = [of_nat (0xC0 + c div 64), of_nat (0x80 + c mod 64)]"
      by (simp add: utf8_char_def)
    have "c div 64 < 32" using two by simp
    then have 1: "unat (of_nat (0xC0 + c div 64) :: byte) = 0xC0 + c div 64"
      by (intro byte_of_nat) simp
    have "c mod 64 < 64" by simp
    then have 2: "unat (of_nat (0x80 + c mod 64) :: byte) = 0x80 + c mod 64"
      by (intro byte_of_nat) simp
    from 1 2 two show ?thesis
      unfolding bs append.simps by (rule utf8_decode_2)
  next
    case three
    with assms have ns: "\<not> (0xD800 \<le> c \<and> c \<le> 0xDFFF)"
      and bs: "bs = [of_nat (0xE0 + c div 4096), of_nat (0x80 + c div 64 mod 64),
                     of_nat (0x80 + c mod 64)]"
      by (auto simp: utf8_char_def split: if_splits)
    have "c div 4096 < 16" using three by simp
    then have 1: "unat (of_nat (0xE0 + c div 4096) :: byte) = 0xE0 + c div 4096"
      by (intro byte_of_nat) simp
    have "c div 64 mod 64 < 64" by simp
    then have 2: "unat (of_nat (0x80 + c div 64 mod 64) :: byte) = 0x80 + c div 64 mod 64"
      by (intro byte_of_nat) simp
    have "c mod 64 < 64" by simp
    then have 3: "unat (of_nat (0x80 + c mod 64) :: byte) = 0x80 + c mod 64"
      by (intro byte_of_nat) simp
    from 1 2 3 three ns show ?thesis
      unfolding bs append.simps by (rule utf8_decode_3)
  next
    case four
    with assms have
      bs: "bs = [of_nat (0xF0 + c div 262144), of_nat (0x80 + c div 4096 mod 64),
                 of_nat (0x80 + c div 64 mod 64), of_nat (0x80 + c mod 64)]"
      by (simp add: utf8_char_def)
    have "c div 262144 < 8" using four by simp
    then have 1: "unat (of_nat (0xF0 + c div 262144) :: byte) = 0xF0 + c div 262144"
      by (intro byte_of_nat) simp
    have "c div 4096 mod 64 < 64" by simp
    then have 2: "unat (of_nat (0x80 + c div 4096 mod 64) :: byte) = 0x80 + c div 4096 mod 64"
      by (intro byte_of_nat) simp
    have "c div 64 mod 64 < 64" by simp
    then have 3: "unat (of_nat (0x80 + c div 64 mod 64) :: byte) = 0x80 + c div 64 mod 64"
      by (intro byte_of_nat) simp
    have "c mod 64 < 64" by simp
    then have 4: "unat (of_nat (0x80 + c mod 64) :: byte) = 0x80 + c mod 64"
      by (intro byte_of_nat) simp
    from 1 2 3 4 four show ?thesis
      unfolding bs append.simps by (rule utf8_decode_4)
  next
    case none
    with assms show ?thesis
      by (simp add: utf8_char_def)
  qed
qed

lemma utf8_decode_utf8: "utf8 cs = Inr bs \<Longrightarrow> utf8_decode bs = Some cs"
proof (induction cs arbitrary: bs)
  case Nil
  then show ?case by simp
next
  case (Cons c cs)
  from Cons.prems obtain b rest where
    b: "utf8_char c = Inr b" and rest: "utf8 cs = Inr rest" and bs: "bs = b @ rest"
    by (auto simp: and_then_eq_Inr)
  from Cons.IH [OF rest] show ?case
    unfolding bs utf8_decode_char [OF b] by simp
qed

subsection \<open>Runs of the example scenes\<close>

lemma floor_rat_numeral [simp]:
  "\<lfloor>numeral a / numeral b :: rat\<rfloor> = numeral a div numeral b"
  using floor_divide_of_int_eq [of "numeral a" "numeral b", where ?'a = rat] by simp

lemmas run_defs =
  init_def process_mesh_def select_uvs_def encode_polygon_def encode_corner_def getitem_def
  active_data_def pack_color_def pack_BBBB_def pack_B_def py_int_def pack_texcoord_def
  pack_vec3_def pack_f_def pack_I_def le32_def utf8_char_def Let_def

lemmas write_defs =
  export_def write_blob_def tag_dat0_def tag_str0_def tag_idx0_def pack_I_def le32_def

lemma tri_loop: "process_all False init tri_scene = Inr tri_state"
  by (simp add: tri_scene_def tri_state_def tri_mesh_def name_Tri_def tri_data_def tri_index_def
      run_defs)

lemma tri_export: "export False tri_scene = Exported tri_blob tri_out"
  by (simp add: tri_loop tri_state_def tri_out_def write_defs tri_data_def tri_index_def
      tri_blob_def del: process_all.simps)

lemma tri_loop_uv: "process_all True init tri_scene = Inr tri_state_uv"
  by (simp add: tri_scene_def tri_state_uv_def tri_mesh_def name_Tri_def tri_data_uv_def
      tri_index_def run_defs)

lemma tri_export_uv: "export True tri_scene = Aborted AssertionError None"
  by (simp add: tri_loop_uv tri_state_uv_def export_def tri_data_uv_def del: process_all.simps)

lemma two_loop: "process_all False init two_scene = Inr two_state"
  by (simp add: two_scene_def two_state_def seam_mesh_def seam_colors_def tri_mesh_def name_Tri_def
      name_Cafe_def two_data_def two_strings_def two_index_def run_defs)

lemma two_export: "export False two_scene = Exported two_blob two_out"
  by (simp add: two_loop two_state_def two_out_def write_defs two_data_def two_strings_def
      two_index_def two_blob_def del: process_all.simps)

lemma bare_export: "export False bare_scene = Exported bare_blob bare_out"
  by (simp add: bare_scene_def bare_out_def bare_mesh_def name_Tri_def bare_blob_def run_defs
      export_def write_blob_def tag_dat0_def tag_str0_def tag_idx0_def)

lemma quad_export: "export False [(name_Tri, quad_mesh)] = Aborted AssertionError None"
  by (simp add: quad_mesh_def name_Tri_def run_defs export_def)

lemma no_color_export: "export False [(name_Tri, tri_mesh_no_color)] = Aborted AttributeError None"
  by (simp add: tri_mesh_no_color_def tri_mesh_def name_Tri_def run_defs export_def)

subsection \<open>The payloads of an exported file and the expected index\<close>

lemma tags_distinct:
  "tag_dat0 \<noteq> tag_str0" "tag_dat0 \<noteq> tag_idx0" "tag_str0 \<noteq> tag_idx0"
  "tag_str0 \<noteq> tag_dat0" "tag_idx0 \<noteq> tag_dat0" "tag_idx0 \<noteq> tag_str0"
  by (simp_all add: tag_dat0_def tag_str0_def tag_idx0_def)

lemma payload_three:
  assumes "length d < 2 ^ 32" "length st < 2 ^ 32" "length ix < 2 ^ 32"
  shows "payload tag_dat0 (chunk tag_dat0 d @ chunk tag_str0 st @ chunk tag_idx0 ix) = d"
    and "payload tag_str0 (chunk tag_dat0 d @ chunk tag_str0 st @ chunk tag_idx0 ix) = st"
    and "payload tag_idx0 (chunk tag_dat0 d @ chunk tag_str0 st @ chunk tag_idx0 ix) = ix"
  by (simp_all add: payload_def read_chunks_three [OF assms] tags_distinct)

lemma export_payloads:
  assumes "export do_texcoord to_write = Exported f out"
  obtains s where "process_all do_texcoord init to_write = Inr s"
    and "vertex_count s * 28 = length (data s)"
    and "payload tag_dat0 f = data s" and "payload tag_str0 f = strings s"
    and "payload tag_idx0 f = index s"
    and "read_chunks f = Some [(tag_dat0, data s), (tag_str0, strings s), (tag_idx0, index s)]"
    and "f = chunk tag_dat0 (data s) @ chunk tag_str0 (strings s) @ chunk tag_idx0 (index s)"
    and "out = stdout s @ [Wrote (length f) (length (data s) + 8) (length (strings s) + 8)
                             (length (index s) + 8)]"
proof -
  from assms obtain s where s: "process_all do_texcoord init to_write = Inr s"
    and v: "vertex_count s * 28 = length (data s)"
    and l: "length (data s) < 2 ^ 32" "length (strings s) < 2 ^ 32" "length (index s) < 2 ^ 32"
    and f: "f = chunk tag_dat0 (data s) @ chunk tag_str0 (strings s) @ chunk tag_idx0 (index s)"
    and out: "out = stdout s @ [Wrote (length f) (length (data s) + 8) (length (strings s) + 8)
                             (length (index s) + 8)]"
    unfolding export_Exported by blast
  show thesis
  proof (rule that [OF s v _ _ _ _ f out])
    show "payload tag_dat0 f = data s"
      unfolding f by (rule payload_three(1) [OF l])
    show "payload tag_str0 f = strings s"
      unfolding f by (rule payload_three(2) [OF l])
    show "payload tag_idx0 f = index s"
      unfolding f by (rule payload_three(3) [OF l])
    show "read_chunks f = Some [(tag_dat0, data s), (tag_str0, strings s), (tag_idx0, index s)]"
      unfolding f by (rule read_chunks_three [OF l])
  qed
qed

lemma length_index_entries [simp]: "length (index_entries nb vb to_write) = length to_write"
  by (induction to_write arbitrary: nb vb) simp_all

lemma index_entries_nth:
  "k < length to_write \<Longrightarrow>
     index_entries nb vb to_write ! k =
       \<lparr>name_begin = nb + length (concat (map (\<lambda>nm. the_bytes (utf8 (fst nm))) (take k to_write))),
        name_end = nb + length (concat (map (\<lambda>nm. the_bytes (utf8 (fst nm))) (take (Suc k) to_write))),
        vertex_begin = vb + triangle_count (take k to_write) * 3,
        vertex_end = vb + triangle_count (take (Suc k) to_write) * 3\<rparr>"
proof (induction to_write arbitrary: nb vb k)
  case Nil
  then show ?case by simp
next
  case (Cons nm rest)
  show ?case
  proof (cases k)
    case 0
    then show ?thesis by simp
  next
    case (Suc j)
    with Cons.prems have "j < length rest" by simp
    from Cons.IH [OF this] Suc show ?thesis
      by (simp add: algebra_simps)
  qed
qed

lemma triangle_count_take_Suc:
  "k < length to_write \<Longrightarrow>
     triangle_count (take (Suc k) to_write) =
       triangle_count (take k to_write) + length (mesh_polygons (snd (to_write ! k)))"
  by (simp add: triangle_count_def take_Suc_conv_app_nth)

lemma triangle_count_take_mono:
  "j \<le> k \<Longrightarrow> triangle_count (take j to_write) \<le> triangle_count (take k to_write)"
proof -
  assume "j \<le> k"
  then have "take k to_write = take j to_write @ take (k - j) (drop j to_write)"
    by (metis le_add_diff_inverse take_add)
  then show ?thesis
    by (simp add: triangle_count_def)
qed

subsection \<open>More on the index, the names, the colours and failing runs\<close>

lemma export_index_records:
  assumes "export do_texcoord to_write = Exported f out"
  shows "index_records (payload tag_idx0 f) = index_entries 0 0 to_write"
    and "payload tag_str0 f = concat (map (\<lambda>nm. the_bytes (utf8 (fst nm))) to_write)"
    and "\<forall>nm \<in> set to_write. utf8 (fst nm) = Inr (the_bytes (utf8 (fst nm)))"
proof -
  from assms obtain s where s: "process_all do_texcoord init to_write = Inr s"
    and p: "payload tag_str0 f = strings s" "payload tag_idx0 f = index s"
    by (rule export_payloads)
  from process_all_index [OF s] index_records_packed
  show "index_records (payload tag_idx0 f) = index_entries 0 0 to_write"
    by (simp add: p init_def)
  from process_all_strings [OF s]
  show "payload tag_str0 f = concat (map (\<lambda>nm. the_bytes (utf8 (fst nm))) to_write)"
    and "\<forall>nm \<in> set to_write. utf8 (fst nm) = Inr (the_bytes (utf8 (fst nm)))"
    by (simp_all add: p init_def)
qed

lemma slice_concat:
  assumes "k < length xs"
  shows "py_slice (concat (map g xs)) (length (concat (map g (take k xs))))
           (length (concat (map g (take (Suc k) xs)))) = g (xs ! k)"
proof -
  have a: "concat (map g xs) = concat (map g (take (Suc k) xs)) @ concat (map g (drop (Suc k) xs))"
    by (metis append_take_drop_id concat_append map_append)
  have b: "concat (map g (take (Suc k) xs)) = concat (map g (take k xs)) @ g (xs ! k)"
    using assms by (simp add: take_Suc_conv_app_nth)
  have "take (length (concat (map g (take (Suc k) xs)))) (concat (map g xs))
          = concat (map g (take (Suc k) xs))"
    by (subst a) simp
  then show ?thesis
    unfolding py_slice_def by (simp add: b)
qed

lemma and_then_raises:
  assumes "\<And>x. m = Inr x \<Longrightarrow> \<exists>e. f x = Inl e"
  shows "\<exists>e. and_then m f = Inl e"
  using assms by (cases m) simp_all

lemma encode_polygon_not_triangle:
  "length (poly_loop_indices poly) \<noteq> 3 \<Longrightarrow>
     encode_polygon do_texcoord m uvs d poly = Inl AssertionError"
  by (simp add: encode_polygon_def)

lemma encode_polygons_raises:
  assumes "poly \<in> set ps" "\<And>d. \<exists>e. encode_polygon do_texcoord m uvs d poly = Inl e"
  shows "\<exists>e. encode_polygons do_texcoord m uvs d ps = Inl e"
  using assms(1)
proof (induction ps arbitrary: d)
  case Nil
  then show ?case by simp
next
  case (Cons p ps)
  show ?case
  proof (cases "p = poly")
    case True
    from assms(2) [of d] obtain e where "encode_polygon do_texcoord m uvs d poly = Inl e" ..
    with True show ?thesis by simp
  next
    case False
    with Cons.prems have "poly \<in> set ps" by simp
    from Cons.IH [OF this] show ?thesis
      by (auto intro: and_then_raises)
  qed
qed

lemma process_mesh_raises:
  assumes "\<And>uvs. \<exists>e. encode_polygons do_texcoord (snd nm) uvs (data s) (mesh_polygons (snd nm)) = Inl e"
  shows "\<exists>e. process_mesh do_texcoord s nm = Inl e"
proof (cases "process_mesh do_texcoord s nm")
  case (Inl e)
  then show ?thesis by blast
next
  case (Inr s')
  from process_mesh_Inr [OF this] obtain uw where
    "encode_polygons do_texcoord (snd nm) (fst uw) (data s) (mesh_polygons (snd nm)) = Inr (data s')"
    by auto
  with assms [of "fst uw"] show ?thesis by simp
qed

lemma process_all_raises:
  assumes "nm \<in> set to_write"
    "\<And>(s :: state) uvs. \<exists>e. encode_polygons do_texcoord (snd nm) uvs (data s) (mesh_polygons (snd nm)) = Inl e"
  shows "\<exists>e. process_all do_texcoord s to_write = Inl e"
  using assms(1)
proof (induction to_write arbitrary: s)
  case Nil
  then show ?case by simp
next
  case (Cons x rest)
  show ?case
  proof (cases "x = nm")
    case True
    have "\<exists>e. process_mesh do_texcoord s nm = Inl e"
      by (rule process_mesh_raises) (rule assms(2))
    then obtain e where "process_mesh do_texcoord s nm = Inl e" ..
    with True show ?thesis by simp
  next
    case False
    with Cons.prems have "nm \<in> set rest" by simp
    from Cons.IH [OF this] show ?thesis
      by (auto intro: and_then_raises)
  qed
qed

lemma encode_corner_no_color:
  assumes "mesh_vertex_colors_active m = None"
  shows "\<exists>e. encode_corner do_texcoord m uvs poly i = Inl e"
  by (auto simp: encode_corner_def and_then_def assms active_data_def split: sum.splits)

lemma encode_polygon_no_color:
  assumes "mesh_vertex_colors_active m = None"
  shows "\<exists>e. encode_polygon do_texcoord m uvs d poly = Inl e"
proof (cases "length (poly_loop_indices poly) = 3")
  case True
  from encode_corner_no_color [OF assms, of do_texcoord uvs poly 0]
  obtain e where "encode_corner do_texcoord m uvs poly 0 = Inl e" ..
  with True show ?thesis
    by (simp add: encode_polygon_def)
next
  case False
  then show ?thesis
    by (simp add: encode_polygon_def)
qed

lemma encode_corner_Inr:
  assumes "encode_corner do_texcoord m uvs poly i = Inr bs"
  obtains lp v cols cb tb where
    "getitem (mesh_loops m) (poly_loop_indices poly ! i) = Inr lp"
    "i < length (poly_loop_indices poly)" "i < length (poly_vertices poly)"
    "loop_vertex_index lp = poly_vertices poly ! i"
    "getitem (mesh_vertices m) (loop_vertex_index lp) = Inr v"
    "mesh_vertex_colors_active m = Some cols"
    "poly_vertices poly ! i < length cols"
    "pack_color (cols ! (poly_vertices poly ! i)) = Inr cb"
    "pack_texcoord do_texcoord uvs poly i = Inr tb"
    "bs = pack_vec3 (vertex_co v) @ pack_vec3 (loop_normal lp) @ cb @ tb"
  using assms
  by (auto simp: encode_corner_def and_then_eq_Inr getitem_def active_data_def
      split: if_splits option.splits)

lemma color_bytes_at:
  assumes "encode_corner do_texcoord m uvs poly i = Inr bs"
    "mesh_vertex_colors_active m = Some cols"
  shows "pack_color (cols ! (poly_vertices poly ! i)) = Inr (take 4 (drop 24 bs))"
  using assms(1)
proof (rule encode_corner_Inr)
  fix lp v cols' cb tb
  assume c: "mesh_vertex_colors_active m = Some cols'"
    and cb: "pack_color (cols' ! (poly_vertices poly ! i)) = Inr cb"
    and bs: "bs = pack_vec3 (vertex_co v) @ pack_vec3 (loop_normal lp) @ cb @ tb"
  from c assms(2) have [simp]: "cols' = cols" by simp
  from length_pack_color [OF cb] have "take 4 (drop 24 bs) = cb"
    by (simp add: bs)
  with cb show ?thesis by simp
qed

lemma pack_color_normalized:
  assumes "pack_color col = Inr cb"
  shows "cb ! 3 = 255"
    and "0 \<le> col_r col \<Longrightarrow> uint (cb ! 0) = \<lfloor>col_r col * 255\<rfloor>"
    and "0 \<le> col_g col \<Longrightarrow> uint (cb ! 1) = \<lfloor>col_g col * 255\<rfloor>"
    and "0 \<le> col_b col \<Longrightarrow> uint (cb ! 2) = \<lfloor>col_b col * 255\<rfloor>"
proof -
  from assms have
    r: "0 \<le> py_int (col_r col * 255)" "py_int (col_r col * 255) \<le> 255" and
    g: "0 \<le> py_int (col_g col * 255)" "py_int (col_g col * 255) \<le> 255" and
    b: "0 \<le> py_int (col_b col * 255)" "py_int (col_b col * 255) \<le> 255" and
    cb: "cb = [of_int (py_int (col_r col * 255)), of_int (py_int (col_g col * 255)),
               of_int (py_int (col_b col * 255)), of_int 255]"
    by (simp_all add: pack_color_def pack_BBBB_Inr)
  have u: "uint (of_int k :: byte) = k" if "0 \<le> k" "k \<le> 255" for k
    using that by (simp add: uint_word_of_int)
  show "cb ! 3 = 255"
    by (simp add: cb)
  show "uint (cb ! 0) = \<lfloor>col_r col * 255\<rfloor>" if "0 \<le> col_r col"
    using that u [OF r] by (simp add: cb py_int_def)
  show "uint (cb ! 1) = \<lfloor>col_g col * 255\<rfloor>" if "0 \<le> col_g col"
    using that u [OF g] by (simp add: cb py_int_def)
  show "uint (cb ! 2) = \<lfloor>col_b col * 255\<rfloor>" if "0 \<le> col_b col"
    using that u [OF b] by (simp add: cb py_int_def)
qed

subsection \<open>Facts about the example scenes\<close>

lemma two_lengths:
  "length two_data = 252" "length two_strings = 8" "length two_index = 32"
  by (simp_all add: two_data_def two_strings_def two_index_def)

lemma two_blob_chunks:
  "two_blob = chunk tag_dat0 two_data @ chunk tag_str0 two_strings @ chunk tag_idx0 two_index"
  by (simp add: two_blob_def chunk_def two_data_def two_strings_def two_index_def
      tag_dat0_def tag_str0_def tag_idx0_def le32_def)

lemma two_payloads:
  "payload tag_dat0 two_blob = two_data" "payload tag_str0 two_blob = two_strings"
  "payload tag_idx0 two_blob = two_index"
  unfolding two_blob_chunks by (rule payload_three; simp add: two_lengths)+

lemma two_scene_facts:
  "length two_scene = 2" "two_scene \<noteq> []" "triangle_count two_scene = 3"
  "length (mesh_polygons (snd (two_scene ! 0))) = 2"
  "length (mesh_polygons (snd (two_scene ! 1))) = 1"
  "length (mesh_polygons (snd (two_scene ! Suc 0))) = 1"
  "fst (two_scene ! 0) = name_Cafe" "fst (two_scene ! 1) = name_Tri"
  "fst (two_scene ! Suc 0) = name_Tri"
  by (simp_all add: two_scene_def seam_mesh_def tri_mesh_def)

lemma seam_corner_0_run:
  "encode_corner False seam_mesh None (mesh_polygons seam_mesh ! 1) 0 = Inr seam_corner_0"
  by (simp add: seam_mesh_def seam_colors_def seam_corner_0_def run_defs)

lemma seam_corner_2_run:
  "encode_corner False seam_mesh None (mesh_polygons seam_mesh ! 1) 2 = Inr seam_corner_2"
  by (simp add: seam_mesh_def seam_colors_def seam_corner_2_def run_defs)

lemma seam_facts:
  "mesh_vertex_colors_active seam_mesh = Some seam_colors"
  "poly_vertices (mesh_polygons seam_mesh ! 1) ! 0 = 0"
  "poly_vertices (mesh_polygons seam_mesh ! 1) ! 2 = 3"
  "poly_loop_indices (mesh_polygons seam_mesh ! 1) ! 0 = 3"
  "mesh_polygons seam_mesh ! 1 \<in> set (mesh_polygons seam_mesh)"
  "loop_vertex_index (mesh_loops seam_mesh ! 0) = 0"
  "loop_vertex_index (mesh_loops seam_mesh ! 3) = 0"
  by (simp_all add: seam_mesh_def)

lemma seam_color_values:
  "seam_colors ! 0 = \<lparr>col_r = 1, col_g = 1 / 2, col_b = 0\<rparr>"
  "seam_colors ! 3 = \<lparr>col_r = 0, col_g = 999 / 1000, col_b = 1\<rparr>"
  by (simp_all add: seam_colors_def)

lemma seam_own_color:
  "pack_color (seam_colors ! 3) = Inr [0, 254, 255, 255]"
  "take 4 (drop 24 seam_corner_0) = [255, 127, 0, 255]"
  by (simp_all add: seam_colors_def seam_corner_0_def pack_color_def pack_BBBB_def pack_B_def
      py_int_def)

lemma source_flag_run: "export do_texcoord_source tri_scene = Exported tri_blob tri_out"
  unfolding do_texcoord_source_def by (rule tri_export)

section \<open>The claims\<close>

text \<open>
  Claim C1. For every exported file, the length of the geometry payload is the vertex count
  times the record size, 28 bytes without texture coordinates and 36 bytes with them, where
  the vertex count is the total of the triangle corners of all meshes, in processing
  order. The same holds of \<^verbatim>\<open>data\<close> and \<^verbatim>\<open>vertex_count\<close> whenever the loop over the meshes ends.
\<close>

theorem geometry_payload_length:
  "(process_all do_texcoord init to_write = Inr s \<longrightarrow>
      vertex_count s = triangle_count to_write * 3 \<and>
      length (data s) = vertex_count s * record_size do_texcoord) \<and>
   (export do_texcoord to_write = Exported f out \<longrightarrow>
      length (payload tag_dat0 f) = triangle_count to_write * 3 * record_size do_texcoord \<and>
      record_size do_texcoord = (if do_texcoord then 36 else 28))"
proof (intro conjI impI)
  assume "process_all do_texcoord init to_write = Inr s"
  from process_all_counts [OF this]
  show "vertex_count s = triangle_count to_write * 3"
    and "length (data s) = vertex_count s * record_size do_texcoord"
    by (simp_all add: init_def)
next
  assume "export do_texcoord to_write = Exported f out"
  then obtain s' where s': "process_all do_texcoord init to_write = Inr s'"
    and v: "vertex_count s' * 28 = length (data s')"
    and p: "payload tag_dat0 f = data s'"
    by (rule export_payloads)
  from process_all_counts [OF s'] have
    c: "vertex_count s' = triangle_count to_write * 3"
    and l: "length (data s') = triangle_count to_write * 3 * record_size do_texcoord"
    by (simp_all add: init_def)
  show "length (payload tag_dat0 f) = triangle_count to_write * 3 * record_size do_texcoord"
    unfolding p by (rule l)
next
  show "record_size do_texcoord = (if do_texcoord then 36 else 28)"
    by (simp add: record_size_def)
qed

theorem geometry_payload_length_witness:
  "process_all False init tri_scene = Inr tri_state \<and>
   export False tri_scene = Exported tri_blob tri_out \<and>
   vertex_count tri_state = 3 \<and> length (data tri_state) = 3 * 28 \<and>
   length (payload tag_dat0 tri_blob) = 3 * 28"
proof -
  from geometry_payload_length [of False tri_scene tri_state tri_blob tri_out]
    tri_loop tri_export
  have "vertex_count tri_state = triangle_count tri_scene * 3
      \<and> length (data tri_state) = vertex_count tri_state * record_size False
      \<and> length (payload tag_dat0 tri_blob) = triangle_count tri_scene * 3 * record_size False"
    by blast
  moreover have "triangle_count tri_scene = 1"
    by (simp add: tri_scene_def tri_mesh_def)
  ultimately show ?thesis
    using tri_loop tri_export by (simp add: record_size_def)
qed

text \<open>
  Claim C2. Whenever some mesh of the input has a polygon whose number of corners is not 3
  after the conversion to triangles, the export aborts and no output file is produced: the
  output path is never opened.
\<close>

theorem non_triangle_aborts:
  assumes "nm \<in> set to_write" "poly \<in> set (mesh_polygons (snd nm))"
    "length (poly_loop_indices poly) \<noteq> 3"
  shows "\<exists>e. export do_texcoord to_write = Aborted e None"
proof -
  have "\<exists>e. encode_polygons do_texcoord (snd nm) uvs (data s) (mesh_polygons (snd nm)) = Inl e"
    for s :: state and uvs
    using assms(2) by (rule encode_polygons_raises)
      (simp add: encode_polygon_not_triangle [OF assms(3)])
  with assms(1) obtain e where "process_all do_texcoord init to_write = Inl e"
    using process_all_raises by blast
  then show ?thesis
    by (auto dest: export_loop_raises)
qed

theorem non_triangle_aborts_witness:
  "(name_Tri, quad_mesh) \<in> set [(name_Cafe, seam_mesh), (name_Tri, quad_mesh)]
   \<and> \<lparr>poly_loop_indices = [0, 1, 2, 3], poly_vertices = [0, 1, 2, 3]\<rparr>
       \<in> set (mesh_polygons quad_mesh)
   \<and> length (poly_loop_indices \<lparr>poly_loop_indices = [0, 1, 2, 3], poly_vertices = [0, 1, 2, 3]\<rparr>) = 4
   \<and> (\<exists>e. export False [(name_Cafe, seam_mesh), (name_Tri, quad_mesh)] = Aborted e None)"
proof -
  have 1: "(name_Tri, quad_mesh) \<in> set [(name_Cafe, seam_mesh), (name_Tri, quad_mesh)]"
    by simp
  have 2: "\<lparr>poly_loop_indices = [0, 1, 2, 3], poly_vertices = [0, 1, 2, 3]\<rparr>
       \<in> set (mesh_polygons (snd (name_Tri, quad_mesh)))"
    by (simp add: quad_mesh_def)
  have 3: "length (poly_loop_indices \<lparr>poly_loop_indices = [0, 1, 2, 3], poly_vertices = [0, 1, 2, 3]\<rparr>) \<noteq> 3"
    by simp
  from non_triangle_aborts [OF 1 2 3, of False] 1 2 show ?thesis
    by simp
qed

text \<open>
  Claim C3. In every exported file the records of the index, in processing order, never
  decrease in \<open>vertex_begin\<close> and \<open>vertex_end\<close> and split the range from 0 to the vertex count
  without gap or overlap: the first record begins at 0, every other record begins where the
  record before it ends, the last record ends at the vertex count, and each record spans three
  times the number of triangles of its mesh.
\<close>

theorem index_partition:
  assumes "export do_texcoord to_write = Exported f out"
  shows "length (index_records (payload tag_idx0 f)) = length to_write
       \<and> sorted (map vertex_begin (index_records (payload tag_idx0 f)))
       \<and> sorted (map vertex_end (index_records (payload tag_idx0 f)))
       \<and> (\<forall>k < length to_write.
            vertex_begin (index_records (payload tag_idx0 f) ! k) =
              (if k = 0 then 0 else vertex_end (index_records (payload tag_idx0 f) ! (k - 1)))
            \<and> vertex_begin (index_records (payload tag_idx0 f) ! k)
                \<le> vertex_end (index_records (payload tag_idx0 f) ! k)
            \<and> vertex_end (index_records (payload tag_idx0 f) ! k)
                - vertex_begin (index_records (payload tag_idx0 f) ! k)
                = 3 * length (mesh_polygons (snd (to_write ! k))))
       \<and> (to_write \<noteq> [] \<longrightarrow>
            vertex_end (last (index_records (payload tag_idx0 f))) = triangle_count to_write * 3)
       \<and> length (payload tag_dat0 f) = triangle_count to_write * 3 * record_size do_texcoord"
proof -
  define rs where "rs = index_records (payload tag_idx0 f)"
  have rs: "rs = index_entries 0 0 to_write"
    unfolding rs_def using assms by (rule export_index_records)
  have len: "length rs = length to_write"
    by (simp add: rs)
  have nth: "vertex_begin (rs ! k) = triangle_count (take k to_write) * 3"
    "vertex_end (rs ! k) = triangle_count (take (Suc k) to_write) * 3"
    if "k < length to_write" for k
    using that by (simp_all add: rs index_entries_nth)
  have sb: "sorted (map vertex_begin rs)"
    unfolding sorted_iff_nth_mono
    using nth(1) triangle_count_take_mono [of _ _ to_write] by (simp add: len)
  have se: "sorted (map vertex_end rs)"
    unfolding sorted_iff_nth_mono
    using nth(2) triangle_count_take_mono [of _ _ to_write] by (simp add: len)
  have each: "vertex_begin (rs ! k) = (if k = 0 then 0 else vertex_end (rs ! (k - 1)))
      \<and> vertex_begin (rs ! k) \<le> vertex_end (rs ! k)
      \<and> vertex_end (rs ! k) - vertex_begin (rs ! k) = 3 * length (mesh_polygons (snd (to_write ! k)))"
    if k: "k < length to_write" for k
  proof (cases k)
    case 0
    with k show ?thesis
      by (simp add: nth triangle_count_take_Suc)
  next
    case (Suc j)
    with k have "j < length to_write" by simp
    from nth(2) [OF this] nth [OF k] k Suc show ?thesis
      by (simp add: triangle_count_take_Suc)
  qed
  have lst: "vertex_end (last rs) = triangle_count to_write * 3" if "to_write \<noteq> []"
  proof -
    from that len have ne: "rs \<noteq> []" by auto
    from that have k: "length to_write - 1 < length to_write" by simp
    have "last rs = rs ! (length to_write - 1)"
      using last_conv_nth [OF ne] len by simp
    with nth(2) [OF k] that show ?thesis by simp
  qed
  from assms have "length (payload tag_dat0 f) = triangle_count to_write * 3 * record_size do_texcoord"
  proof (rule export_payloads)
    fix s assume s: "process_all do_texcoord init to_write = Inr s"
      and p: "payload tag_dat0 f = data s"
    from process_all_counts [OF s] show ?thesis
      by (simp add: p init_def)
  qed
  with len sb se each lst show ?thesis
    unfolding rs_def by blast
qed

theorem index_partition_witness:
  "export False two_scene = Exported two_blob two_out
   \<and> length (index_records two_index) = 2
   \<and> vertex_begin (index_records two_index ! 0) = 0
   \<and> vertex_end (index_records two_index ! 0) = 6
   \<and> vertex_begin (index_records two_index ! 1) = 6
   \<and> vertex_end (index_records two_index ! 1) = 9
   \<and> vertex_end (last (index_records two_index)) = 9
   \<and> length two_data = 9 * 28"
proof -
  note t = index_partition [OF two_export, unfolded two_payloads two_scene_facts]
  from t have n: "length (index_records two_index) = 2"
    by blast
  from t have all: "\<forall>k<2. vertex_begin (index_records two_index ! k) =
        (if k = 0 then 0 else vertex_end (index_records two_index ! (k - 1)))
      \<and> vertex_begin (index_records two_index ! k) \<le> vertex_end (index_records two_index ! k)
      \<and> vertex_end (index_records two_index ! k) - vertex_begin (index_records two_index ! k)
          = 3 * length (mesh_polygons (snd (two_scene ! k)))"
    by blast
  from all [rule_format, of 0] have b0: "vertex_begin (index_records two_index ! 0) = 0"
    and e0: "vertex_end (index_records two_index ! 0) - vertex_begin (index_records two_index ! 0)
               = 3 * length (mesh_polygons (snd (two_scene ! 0)))"
    by auto
  from all [rule_format, of 1]
  have b1: "vertex_begin (index_records two_index ! 1) = vertex_end (index_records two_index ! 0)"
    and l1: "vertex_begin (index_records two_index ! 1) \<le> vertex_end (index_records two_index ! 1)"
    and e1: "vertex_end (index_records two_index ! 1) - vertex_begin (index_records two_index ! 1)
               = 3 * length (mesh_polygons (snd (two_scene ! 1)))"
    by auto
  from t two_scene_facts(2) have lst: "vertex_end (last (index_records two_index)) = 3 * 3"
    by simp
  from t have d: "length two_data = 3 * 3 * record_size False"
    by simp
  from b0 e0 have v0: "vertex_end (index_records two_index ! 0) = 6"
    unfolding two_scene_facts by linarith
  from b1 l1 e1 v0 have v1: "vertex_end (index_records two_index ! 1) = 9"
    unfolding two_scene_facts by linarith
  from n b0 v0 b1 v1 lst d two_export show ?thesis
    by (simp add: record_size_def)
qed

text \<open>
  Claim C4. In every exported file and for every record of the index, the bytes of the
  strings payload from \<open>name_begin\<close> to \<open>name_end\<close> are the UTF-8 encoding of the name of that
  mesh and decode to exactly that name; the strings payload is the UTF-8 names one after
  the other, in processing order, with nothing between or after them.
\<close>

theorem name_slices:
  assumes "export do_texcoord to_write = Exported f out"
  shows "payload tag_str0 f = concat (map (\<lambda>nm. the_bytes (utf8 (fst nm))) to_write)
       \<and> (\<forall>k < length to_write.
            utf8 (fst (to_write ! k)) =
              Inr (py_slice (payload tag_str0 f)
                     (name_begin (index_records (payload tag_idx0 f) ! k))
                     (name_end (index_records (payload tag_idx0 f) ! k)))
            \<and> utf8_decode (py_slice (payload tag_str0 f)
                     (name_begin (index_records (payload tag_idx0 f) ! k))
                     (name_end (index_records (payload tag_idx0 f) ! k)))
                = Some (fst (to_write ! k)))"
proof (intro conjI allI impI)
  show st: "payload tag_str0 f = concat (map (\<lambda>nm. the_bytes (utf8 (fst nm))) to_write)"
    using assms by (rule export_index_records)
  fix k assume k: "k < length to_write"
  have rs: "index_records (payload tag_idx0 f) = index_entries 0 0 to_write"
    using assms by (rule export_index_records)
  have "\<forall>nm \<in> set to_write. utf8 (fst nm) = Inr (the_bytes (utf8 (fst nm)))"
    using assms by (rule export_index_records)
  with k have u: "utf8 (fst (to_write ! k)) = Inr (the_bytes (utf8 (fst (to_write ! k))))"
    by simp
  have sl: "py_slice (payload tag_str0 f)
              (name_begin (index_records (payload tag_idx0 f) ! k))
              (name_end (index_records (payload tag_idx0 f) ! k))
            = the_bytes (utf8 (fst (to_write ! k)))"
    unfolding st rs using k slice_concat [OF k, of "\<lambda>nm. the_bytes (utf8 (fst nm))"]
    by (simp add: index_entries_nth)
  show "utf8 (fst (to_write ! k)) =
          Inr (py_slice (payload tag_str0 f)
                 (name_begin (index_records (payload tag_idx0 f) ! k))
                 (name_end (index_records (payload tag_idx0 f) ! k)))"
    unfolding sl by (rule u)
  then show "utf8_decode (py_slice (payload tag_str0 f)
                 (name_begin (index_records (payload tag_idx0 f) ! k))
                 (name_end (index_records (payload tag_idx0 f) ! k)))
              = Some (fst (to_write ! k))"
    by (rule utf8_decode_utf8)
qed

theorem name_slices_witness:
  "export False two_scene = Exported two_blob two_out
   \<and> two_strings = [0x43, 0x61, 0x66, 0xC3, 0xA9] @ [0x54, 0x72, 0x69]
   \<and> utf8_decode (py_slice two_strings (name_begin (index_records two_index ! 0))
        (name_end (index_records two_index ! 0))) = Some name_Cafe
   \<and> utf8_decode (py_slice two_strings (name_begin (index_records two_index ! 1))
        (name_end (index_records two_index ! 1))) = Some name_Tri"
proof -
  note t = name_slices [OF two_export, unfolded two_payloads two_scene_facts]
  from t have all: "\<forall>k<2.
      utf8 (fst (two_scene ! k)) =
        Inr (py_slice two_strings (name_begin (index_records two_index ! k))
               (name_end (index_records two_index ! k)))
      \<and> utf8_decode (py_slice two_strings (name_begin (index_records two_index ! k))
               (name_end (index_records two_index ! k))) = Some (fst (two_scene ! k))"
    by blast
  from all [rule_format, of 0] all [rule_format, of 1] two_export show ?thesis
    by (simp add: two_scene_facts two_strings_def)
qed

text \<open>
  Claim C5. Every exported file consists of exactly three chunks, in the order geometry
  (\<^verbatim>\<open>dat0\<close>), strings (\<^verbatim>\<open>str0\<close>), index (\<^verbatim>\<open>idx0\<close>). Each chunk is its four-byte ASCII tag,
  the length of its payload (without the eight bytes of tag and length) in four bytes,
  least significant first, and the payload. The number of bytes written is the sum of
  \<open>8 + length payload\<close> over the three chunks, and the last line printed reports that total
  and the three summands.
\<close>

theorem three_chunks:
  assumes "export do_texcoord to_write = Exported f out"
  shows "read_chunks f =
           Some [(tag_dat0, payload tag_dat0 f), (tag_str0, payload tag_str0 f),
                 (tag_idx0, payload tag_idx0 f)]
       \<and> f = tag_dat0 @ le32 (length (payload tag_dat0 f)) @ payload tag_dat0 f
           @ tag_str0 @ le32 (length (payload tag_str0 f)) @ payload tag_str0 f
           @ tag_idx0 @ le32 (length (payload tag_idx0 f)) @ payload tag_idx0 f
       \<and> unpack_I (le32 (length (payload tag_dat0 f))) = length (payload tag_dat0 f)
       \<and> unpack_I (le32 (length (payload tag_str0 f))) = length (payload tag_str0 f)
       \<and> unpack_I (le32 (length (payload tag_idx0 f))) = length (payload tag_idx0 f)
       \<and> tag_dat0 = map of_char ''dat0'' \<and> tag_str0 = map of_char ''str0''
       \<and> tag_idx0 = map of_char ''idx0''
       \<and> length f = (8 + length (payload tag_dat0 f)) + (8 + length (payload tag_str0 f))
           + (8 + length (payload tag_idx0 f))
       \<and> out \<noteq> []
       \<and> last out = Wrote (length f) (length (payload tag_dat0 f) + 8)
           (length (payload tag_str0 f) + 8) (length (payload tag_idx0 f) + 8)"
proof -
  from assms obtain s where s: "process_all do_texcoord init to_write = Inr s"
    and l: "length (data s) < 2 ^ 32" "length (strings s) < 2 ^ 32" "length (index s) < 2 ^ 32"
    unfolding export_Exported by blast
  from assms obtain s' where s': "process_all do_texcoord init to_write = Inr s'"
    and p: "payload tag_dat0 f = data s'" "payload tag_str0 f = strings s'"
      "payload tag_idx0 f = index s'"
    and r: "read_chunks f = Some [(tag_dat0, data s'), (tag_str0, strings s'), (tag_idx0, index s')]"
    and f: "f = chunk tag_dat0 (data s') @ chunk tag_str0 (strings s') @ chunk tag_idx0 (index s')"
    and out: "out = stdout s' @ [Wrote (length f) (length (data s') + 8) (length (strings s') + 8)
                             (length (index s') + 8)]"
    by (rule export_payloads)
  from s s' have [simp]: "s' = s" by simp
  have tags: "tag_dat0 = map of_char ''dat0''" "tag_str0 = map of_char ''str0''"
    "tag_idx0 = map of_char ''idx0''"
    by (simp_all add: tag_dat0_def tag_str0_def tag_idx0_def)
  have len: "length f = (8 + length (data s)) + (8 + length (strings s)) + (8 + length (index s))"
    using f by simp
  from r p f l tags len out show ?thesis
    by (simp add: unpack_I_le32 chunk_def)
qed

theorem three_chunks_witness:
  "export False two_scene = Exported two_blob two_out
   \<and> read_chunks two_blob = Some [(tag_dat0, two_data), (tag_str0, two_strings), (tag_idx0, two_index)]
   \<and> length two_blob = (8 + 252) + (8 + 8) + (8 + 32)
   \<and> last two_out = Wrote 316 260 16 40"
  using three_chunks [OF two_export] two_export
  unfolding two_payloads two_lengths by (simp add: two_out_def)

text \<open>
  Claim C6. In the record of every encoded corner, the red, green and blue bytes are the
  floor of the channel value times 255, for a channel normalized to the range from 0 to 1:
  the product is truncated, not rounded. The alpha byte is always 255.
\<close>

theorem corner_color_bytes:
  assumes "encode_corner do_texcoord m uvs poly i = Inr bs"
    "mesh_vertex_colors_active m = Some cols"
  shows "bs ! 27 = 255
       \<and> (0 \<le> col_r (cols ! (poly_vertices poly ! i)) \<and> col_r (cols ! (poly_vertices poly ! i)) \<le> 1
            \<longrightarrow> uint (bs ! 24) = \<lfloor>col_r (cols ! (poly_vertices poly ! i)) * 255\<rfloor>)
       \<and> (0 \<le> col_g (cols ! (poly_vertices poly ! i)) \<and> col_g (cols ! (poly_vertices poly ! i)) \<le> 1
            \<longrightarrow> uint (bs ! 25) = \<lfloor>col_g (cols ! (poly_vertices poly ! i)) * 255\<rfloor>)
       \<and> (0 \<le> col_b (cols ! (poly_vertices poly ! i)) \<and> col_b (cols ! (poly_vertices poly ! i)) \<le> 1
            \<longrightarrow> uint (bs ! 26) = \<lfloor>col_b (cols ! (poly_vertices poly ! i)) * 255\<rfloor>)"
proof -
  define cb where "cb = take 4 (drop 24 bs)"
  have p: "pack_color (cols ! (poly_vertices poly ! i)) = Inr cb"
    unfolding cb_def using assms by (rule color_bytes_at)
  from length_encode_corner [OF assms(1)] have "28 \<le> length bs"
    by (simp add: record_size_def)
  then have n: "cb ! 0 = bs ! 24" "cb ! 1 = bs ! 25" "cb ! 2 = bs ! 26" "cb ! 3 = bs ! 27"
    by (simp_all add: cb_def)
  from pack_color_normalized [OF p] show ?thesis
    unfolding n by blast
qed

theorem corner_color_bytes_witness:
  "encode_corner False seam_mesh None (mesh_polygons seam_mesh ! 1) 2 = Inr seam_corner_2
   \<and> mesh_vertex_colors_active seam_mesh = Some seam_colors
   \<and> seam_colors ! 3 = \<lparr>col_r = 0, col_g = 999 / 1000, col_b = 1\<rparr>
   \<and> uint (seam_corner_2 ! 24) = 0 \<and> uint (seam_corner_2 ! 25) = 254
   \<and> uint (seam_corner_2 ! 26) = 255 \<and> seam_corner_2 ! 27 = 255"
proof -
  note t = corner_color_bytes [OF seam_corner_2_run seam_facts(1),
      unfolded seam_facts seam_color_values]
  from t seam_corner_2_run seam_facts(1) seam_color_values(2) show ?thesis
    by simp
qed

text \<open>
  Claim C7. The colour written for a corner is the entry of the active colour layer at the
  index of the vertex of that corner (\<^verbatim>\<open>poly.vertices[i]\<close>), not at the index of its loop.
  Hence there is a mesh in which a vertex is shared by corners whose layer colours differ
  and in which some corner is written with a colour that is not its own.
\<close>

theorem color_read_at_vertex_index:
  "(encode_corner do_texcoord m uvs poly i = Inr bs \<and> mesh_vertex_colors_active m = Some cols
      \<longrightarrow> pack_color (cols ! (poly_vertices poly ! i)) = Inr (take 4 (drop 24 bs)))
   \<and> (\<exists>m' poly' i' bs' cols' j.
         poly' \<in> set (mesh_polygons m')
         \<and> encode_corner False m' None poly' i' = Inr bs'
         \<and> mesh_vertex_colors_active m' = Some cols'
         \<and> j \<noteq> poly_loop_indices poly' ! i'
         \<and> loop_vertex_index (mesh_loops m' ! j)
             = loop_vertex_index (mesh_loops m' ! (poly_loop_indices poly' ! i'))
         \<and> cols' ! j \<noteq> cols' ! (poly_loop_indices poly' ! i')
         \<and> pack_color (cols' ! (poly_loop_indices poly' ! i')) \<noteq> Inr (take 4 (drop 24 bs')))"
proof (intro conjI impI)
  assume "encode_corner do_texcoord m uvs poly i = Inr bs \<and> mesh_vertex_colors_active m = Some cols"
  then show "pack_color (cols ! (poly_vertices poly ! i)) = Inr (take 4 (drop 24 bs))"
    by (blast intro: color_bytes_at)
next
  have "mesh_polygons seam_mesh ! 1 \<in> set (mesh_polygons seam_mesh)
      \<and> encode_corner False seam_mesh None (mesh_polygons seam_mesh ! 1) 0 = Inr seam_corner_0
      \<and> mesh_vertex_colors_active seam_mesh = Some seam_colors
      \<and> 0 \<noteq> poly_loop_indices (mesh_polygons seam_mesh ! 1) ! 0
      \<and> loop_vertex_index (mesh_loops seam_mesh ! 0)
          = loop_vertex_index (mesh_loops seam_mesh ! (poly_loop_indices (mesh_polygons seam_mesh ! 1) ! 0))
      \<and> seam_colors ! 0 \<noteq> seam_colors ! (poly_loop_indices (mesh_polygons seam_mesh ! 1) ! 0)
      \<and> pack_color (seam_colors ! (poly_loop_indices (mesh_polygons seam_mesh ! 1) ! 0))
          \<noteq> Inr (take 4 (drop 24 seam_corner_0))"
    unfolding seam_facts seam_own_color using seam_corner_0_run seam_facts(5)
    by (simp add: seam_color_values)
  then show "\<exists>m' poly' i' bs' cols' j.
         poly' \<in> set (mesh_polygons m')
         \<and> encode_corner False m' None poly' i' = Inr bs'
         \<and> mesh_vertex_colors_active m' = Some cols'
         \<and> j \<noteq> poly_loop_indices poly' ! i'
         \<and> loop_vertex_index (mesh_loops m' ! j)
             = loop_vertex_index (mesh_loops m' ! (poly_loop_indices poly' ! i'))
         \<and> cols' ! j \<noteq> cols' ! (poly_loop_indices poly' ! i')
         \<and> pack_color (cols' ! (poly_loop_indices poly' ! i')) \<noteq> Inr (take 4 (drop 24 bs'))"
    by blast
qed

theorem color_read_at_vertex_index_witness:
  "encode_corner False seam_mesh None (mesh_polygons seam_mesh ! 1) 0 = Inr seam_corner_0
   \<and> mesh_vertex_colors_active seam_mesh = Some seam_colors
   \<and> poly_vertices (mesh_polygons seam_mesh ! 1) ! 0 = 0
   \<and> poly_loop_indices (mesh_polygons seam_mesh ! 1) ! 0 = 3
   \<and> pack_color (seam_colors ! 0) = Inr [255, 127, 0, 255]
   \<and> pack_color (seam_colors ! 3) = Inr [0, 254, 255, 255]"
proof -
  note t = color_read_at_vertex_index [of False seam_mesh None "mesh_polygons seam_mesh ! 1" 0
      seam_corner_0 seam_colors, THEN conjunct1, unfolded seam_facts seam_own_color]
  from t seam_corner_0_run have "pack_color (seam_colors ! 0) = Inr [255, 127, 0, 255]"
    by simp
  with seam_corner_0_run seam_facts(1,2,4) seam_own_color(1) show ?thesis
    by blast
qed

text \<open>
  Claim C8. With the texture-coordinate flag set, a mesh without a texture-coordinate layer
  is meant to be exported with a warning and with the texture coordinate \<open>(0.0, 0.0)\<close> in
  every corner. The loop does so: for the triangle it prints the warning and appends eight
  zero bytes to each of the three records. But the final check of line 116 counts 28 bytes
  per vertex, so the run then aborts with \<^verbatim>\<open>AssertionError\<close> and writes no file.
\<close>

theorem texcoord_without_layer_aborts:
  "mesh_uv_layers tri_mesh = []
   \<and> select_uvs True name_Tri tri_mesh = Inr (None, [Warning_no_uv name_Tri])
   \<and> pack_texcoord True None poly i = Inr [0, 0, 0, 0, 0, 0, 0, 0]
   \<and> process_all True init tri_scene = Inr tri_state_uv
   \<and> Warning_no_uv name_Tri \<in> set (stdout tri_state_uv)
   \<and> length (data tri_state_uv) = 3 * 36
   \<and> py_slice (data tri_state_uv) 28 36 = [0, 0, 0, 0, 0, 0, 0, 0]
   \<and> py_slice (data tri_state_uv) 64 72 = [0, 0, 0, 0, 0, 0, 0, 0]
   \<and> py_slice (data tri_state_uv) 100 108 = [0, 0, 0, 0, 0, 0, 0, 0]
   \<and> export True tri_scene = Aborted AssertionError None"
  using tri_loop_uv tri_export_uv
  by (simp add: tri_mesh_def select_uvs_def pack_texcoord_def pack_f_def le32_def
      tri_state_uv_def tri_data_uv_def py_slice_def)

text \<open>
  Claim C9, as the code has it. The colour layer is read once per corner (line 104), so a
  mesh without an active colour layer stops the export only when it has a polygon: then the
  export aborts and no output file is written. A mesh without polygons and without a colour
  layer is exported.
\<close>

theorem missing_color_layer_aborts:
  assumes "nm \<in> set to_write" "mesh_vertex_colors_active (snd nm) = None"
    "mesh_polygons (snd nm) \<noteq> []"
  shows "\<exists>e. export do_texcoord to_write = Aborted e None"
proof -
  from assms(3) have "hd (mesh_polygons (snd nm)) \<in> set (mesh_polygons (snd nm))"
    by simp
  then have "\<exists>e. encode_polygons do_texcoord (snd nm) uvs (data s) (mesh_polygons (snd nm)) = Inl e"
    for s :: state and uvs
    by (rule encode_polygons_raises) (rule encode_polygon_no_color [OF assms(2)])
  with assms(1) obtain e where "process_all do_texcoord init to_write = Inl e"
    using process_all_raises by blast
  then show ?thesis
    by (auto dest: export_loop_raises)
qed

theorem missing_color_layer_aborts_witness:
  "(name_Tri, tri_mesh_no_color) \<in> set [(name_Tri, tri_mesh_no_color)]
   \<and> mesh_vertex_colors_active tri_mesh_no_color = None
   \<and> mesh_polygons tri_mesh_no_color \<noteq> []
   \<and> (\<exists>e. export False [(name_Tri, tri_mesh_no_color)] = Aborted e None)"
proof -
  have 1: "(name_Tri, tri_mesh_no_color) \<in> set [(name_Tri, tri_mesh_no_color)]"
    by simp
  have 2: "mesh_vertex_colors_active (snd (name_Tri, tri_mesh_no_color)) = None"
    by (simp add: tri_mesh_no_color_def)
  have 3: "mesh_polygons (snd (name_Tri, tri_mesh_no_color)) \<noteq> []"
    by (simp add: tri_mesh_no_color_def tri_mesh_def)
  from missing_color_layer_aborts [OF 1 2 3, of False] 2 3 show ?thesis
    by simp
qed

theorem missing_color_layer_counterexample:
  "(name_Tri, bare_mesh) \<in> set bare_scene
   \<and> mesh_vertex_colors_active bare_mesh = None
   \<and> export False bare_scene = Exported bare_blob bare_out"
  using bare_export by (simp add: bare_scene_def bare_mesh_def)

text \<open>
  Claim C10. The final check compares the length of \<^verbatim>\<open>data\<close> with \<^verbatim>\<open>vertex_count\<close> times 28,
  the size of a record without texture coordinates, whatever the flag is. So with the flag
  set, every input with at least one triangle aborts with no file written; when all meshes
  are well formed, so that the loop ends, it is this assertion that fails.
\<close>

theorem texcoord_flag_fails_final_check:
  assumes "0 < triangle_count to_write"
  shows "(\<exists>e. export True to_write = Aborted e None)
       \<and> (process_all True init to_write = Inr s \<longrightarrow>
            length (data s) = vertex_count s * 36
            \<and> vertex_count s * (4*3+4*3+4*1) \<noteq> length (data s)
            \<and> export True to_write = Aborted AssertionError None)"
proof -
  have r: "length (data s') = vertex_count s' * 36
      \<and> vertex_count s' * (4*3+4*3+4*1) \<noteq> length (data s')
      \<and> export True to_write = Aborted AssertionError None"
    if s': "process_all True init to_write = Inr s'" for s'
  proof -
    from process_all_counts [OF s'] have
      c: "vertex_count s' = triangle_count to_write * 3"
      and l: "length (data s') = triangle_count to_write * 3 * 36"
      by (simp_all add: init_def record_size_def)
    from c l assms have ne: "vertex_count s' * (4*3+4*3+4*1) \<noteq> length (data s')"
      by simp
    with s' have "export True to_write = Aborted AssertionError None"
      by (simp add: export_def)
    with c l ne show ?thesis
      by simp
  qed
  have "\<exists>e. export True to_write = Aborted e None"
  proof (cases "process_all True init to_write")
    case (Inl e)
    then show ?thesis
      by (auto dest: export_loop_raises)
  next
    case (Inr s')
    from r [OF this] show ?thesis
      by blast
  qed
  with r show ?thesis
    by blast
qed

theorem texcoord_flag_fails_final_check_witness:
  "0 < triangle_count tri_scene
   \<and> process_all True init tri_scene = Inr tri_state_uv
   \<and> length (data tri_state_uv) = 3 * 36
   \<and> vertex_count tri_state_uv * 28 = 84
   \<and> export True tri_scene = Aborted AssertionError None"
proof -
  have 1: "0 < triangle_count tri_scene"
    by (simp add: tri_scene_def tri_mesh_def)
  from texcoord_flag_fails_final_check [OF 1, of tri_state_uv] tri_loop_uv
  have "length (data tri_state_uv) = vertex_count tri_state_uv * 36
      \<and> export True tri_scene = Aborted AssertionError None"
    by blast
  with 1 tri_loop_uv show ?thesis
    by (simp add: tri_state_uv_def)
qed

end
